theory Spec2Isabelle
  imports Complex_Main "HOL-Library.List_Lexorder"
begin

section \<open>Python values\<close>

text \<open>
  A Python \<open>str\<close> is the list of its Unicode code points; \<open>asc\<close> reads an ASCII
  literal. Comparison of \<open>str\<close> values is the lexicographic order of the code points,
  which is the order of lists from \<open>List_Lexorder\<close>.
\<close>

type_synonym ustr = "nat list"

definition asc :: "string \<Rightarrow> ustr" where
  "asc s = map of_char s"

text \<open>The characters \<open>str.strip()\<close> removes: those for which \<open>str.isspace()\<close> holds.\<close>

definition is_space :: "nat \<Rightarrow> bool" where
  "is_space c \<longleftrightarrow>
     (9 \<le> c \<and> c \<le> 13) \<or> (28 \<le> c \<and> c \<le> 32) \<or> c = 133 \<or> c = 160 \<or> c = 5760 \<or>
     (8192 \<le> c \<and> c \<le> 8202) \<or> c = 8232 \<or> c = 8233 \<or> c = 8239 \<or> c = 8287 \<or> c = 12288"

definition strip :: "ustr \<Rightarrow> ustr" where
  "strip s = rev (dropWhile is_space (rev (dropWhile is_space s)))"

text \<open>\<open>s.replace(",", "")\<close>\<close>

definition remove_commas :: "ustr \<Rightarrow> ustr" where
  "remove_commas s = filter (\<lambda>c. c \<noteq> 44) s"

text \<open>
  A Python \<open>float\<close> by its value. A cell of a DataFrame is \<open>None\<close> or \<open>NaT\<close>
  (\<open>NoneV\<close>), an integer, a float (\<open>np.nan\<close> is \<open>FloatV NaN\<close>), a string, or a
  Timestamp, kept as the proleptic Gregorian ordinal of its day (\<open>date.toordinal()\<close>;
  the time of day is never rendered by this program).
\<close>

datatype pyfloat = Finite rat | PosInf | NegInf | NaN

datatype cell = NoneV | IntV int | FloatV pyfloat | StrV ustr | StampV int

datatype pyerr =
    KeyError | ValueError | OverflowError | AttributeError | IndexError
  | OSError | FileExistsError | FileNotFoundError | NotADirectoryError
  | PermissionError | IsADirectoryError
  | LibError ustr
  | KeyboardInterrupt | SystemExit int

text \<open>
  Whatever is raised is a \<open>pyerr\<close>. \<open>LibError\<close> is an exception of the provider's
  library, with its message. \<open>KeyboardInterrupt\<close> and \<open>SystemExit\<close> (with its exit
  status) derive from \<open>BaseException\<close> only; all the others derive from \<open>Exception\<close>,
  which is what \<open>except Exception\<close> catches.
\<close>

definition is_exception :: "pyerr \<Rightarrow> bool" where
  "is_exception e = (case e of KeyboardInterrupt \<Rightarrow> False | SystemExit n \<Rightarrow> False | _ \<Rightarrow> True)"

text \<open>\<open>pd.isna(x)\<close> on a scalar.\<close>

definition isna :: "cell \<Rightarrow> bool" where
  "isna x \<longleftrightarrow> x = NoneV \<or> x = FloatV NaN"

text \<open>
  The library functions the script calls and whose bodies are not part of this
  repository are parameters of the model:
  \<^item> \<open>float_of_int\<close>: \<open>float(x)\<close> on an \<open>int\<close>; \<open>None\<close> is OverflowError;
  \<^item> \<open>float_of_str\<close>: \<open>float(s)\<close> on a \<open>str\<close>; \<open>None\<close> is ValueError;
  \<^item> \<open>str_of_stamp\<close>: \<open>str(x)\<close> on a Timestamp;
  \<^item> \<open>to_datetime\<close>: \<open>pd.to_datetime(column)\<close> with its default
    \<open>errors="raise"\<close>, one result per cell, \<open>None\<close> for \<open>NaT\<close>;
  \<^item> \<open>csv_number\<close>: how \<open>to_csv\<close> prints a number;
  \<^item> \<open>date_min\<close>, \<open>date_max\<close>: \<open>Series.min()\<close> and \<open>Series.max()\<close> on the date
    column, as the text an f-string prints, or the exception they raise;
  \<^item> \<open>year_padded\<close>: whether \<open>strftime("%Y")\<close> of the C library pads a year below 1000
    with zeros to four digits;
  \<^item> \<open>unicode_decimal\<close>: the value of a non-ASCII character that is a decimal digit
    (the Unicode table behind \<open>int\<close>), \<open>None\<close> for any other character;
  \<^item> \<open>int_max_str_digits\<close>: \<open>sys.get_int_max_str_digits()\<close>, the number of digits
    beyond which \<open>int\<close> refuses a string, 0 for no limit;
  \<^item> \<open>os_makedirs\<close>: \<open>os.makedirs(path, exist_ok=True)\<close> of the operating system,
    from the path, the directories and the files that exist, to the exception if any
    and the directories that exist afterwards;
  \<^item> \<open>os_write\<close>: the writing of a text file by \<open>to_csv\<close> (its check of the parent
    directory, \<open>open(path, "w")\<close> and the writes), from the path, the bytes, the
    directories and the files, to the exception if any and the files afterwards;
  \<^item> \<open>stdout_error\<close>: the exception that \<open>print\<close> raises on a line for standard
    output (one that its encoding cannot hold, a closed pipe), \<open>None\<close> when the line
    is written;
  \<^item> \<open>exc_text\<close>: \<open>str(e)\<close> of an exception;
  \<^item> \<open>traceback_body\<close>: what the interpreter prints for an exception nobody caught,
    after the line \<open>Traceback (most recent call last):\<close>.
\<close>

record pylib =
  float_of_int :: "int \<Rightarrow> pyfloat option"
  float_of_str :: "ustr \<Rightarrow> pyfloat option"
  str_of_stamp :: "int \<Rightarrow> ustr"
  to_datetime :: "cell list \<Rightarrow> pyerr + int option list"
  csv_number :: "cell \<Rightarrow> ustr"
  date_min :: "ustr option list \<Rightarrow> pyerr + ustr"
  date_max :: "ustr option list \<Rightarrow> pyerr + ustr"
  year_padded :: bool
  unicode_decimal :: "nat \<Rightarrow> nat option"
  int_max_str_digits :: nat
  os_makedirs :: "ustr \<Rightarrow> ustr set \<Rightarrow> (ustr \<rightharpoonup> string) \<Rightarrow> (pyerr + unit) \<times> ustr set"
  os_write ::
    "ustr \<Rightarrow> string \<Rightarrow> ustr set \<Rightarrow> (ustr \<rightharpoonup> string) \<Rightarrow> (pyerr + unit) \<times> (ustr \<rightharpoonup> string)"
  stdout_error :: "ustr \<Rightarrow> pyerr option"
  exc_text :: "pyerr \<Rightarrow> ustr"
  traceback_body :: "pyerr \<Rightarrow> ustr list"

section \<open>The numeric normalizer\<close>

text \<open>
  \<^verbatim>\<open>
  def _to_num(x):
      if pd.isna(x): return np.nan
      if isinstance(x, (int, float, np.integer, np.floating)):
          return float(x)
      s = str(x).replace(",", "").strip()
      try:
          return float(s)
      except Exception:
          return np.nan
  \<close>
\<close>

definition py_str :: "pylib \<Rightarrow> cell \<Rightarrow> ustr" where
  "py_str lib x = (case x of StrV s \<Rightarrow> s | StampV d \<Rightarrow> str_of_stamp lib d | _ \<Rightarrow> [])"

definition to_num :: "pylib \<Rightarrow> cell \<Rightarrow> pyerr + pyfloat" where
  "to_num lib x =
     (if isna x then Inr NaN
      else case x of
        IntV i \<Rightarrow> (case float_of_int lib i of None \<Rightarrow> Inl OverflowError | Some f \<Rightarrow> Inr f)
      | FloatV f \<Rightarrow> Inr f
      | _ \<Rightarrow> (case float_of_str lib (strip (remove_commas (py_str lib x))) of
                Some f \<Rightarrow> Inr f
              | None \<Rightarrow> Inr NaN))"

section \<open>Errors and sequencing\<close>

text \<open>A raised exception is \<open>Inl\<close>; \<open>bindE\<close> runs the next statement on a normal result.\<close>

definition bindE :: "pyerr + 'a \<Rightarrow> ('a \<Rightarrow> pyerr + 'b) \<Rightarrow> pyerr + 'b" where
  "bindE m f = (case m of Inl e \<Rightarrow> Inl e | Inr x \<Rightarrow> f x)"

text \<open>Applying a function that may raise to each element in turn; the first exception wins.\<close>

fun map_err :: "('a \<Rightarrow> pyerr + 'b) \<Rightarrow> 'a list \<Rightarrow> pyerr + 'b list" where
  "map_err f [] = Inr []"
| "map_err f (x # xs) =
     (case f x of
        Inl e \<Rightarrow> Inl e
      | Inr y \<Rightarrow> (case map_err f xs of Inl e \<Rightarrow> Inl e | Inr ys \<Rightarrow> Inr (y # ys)))"

section \<open>Dates\<close>

text \<open>
  The civil date (year, month, day) of a proleptic Gregorian ordinal, where ordinal 1 is
  0001-01-01 as in \<open>date.toordinal()\<close>.
\<close>

definition civil_of_ordinal :: "int \<Rightarrow> int \<times> int \<times> int" where
  "civil_of_ordinal n =
     (let z = n + 305;
          era = z div 146097;
          doe = z mod 146097;
          yoe = (doe - doe div 1460 + doe div 36524 - doe div 146096) div 365;
          doy = doe - (365 * yoe + yoe div 4 - yoe div 100);
          mp = (5 * doy + 2) div 153;
          d = doy - (153 * mp + 2) div 5 + 1;
          m = (if mp < 10 then mp + 3 else mp - 9);
          y = yoe + era * 400 + (if m \<le> 2 then 1 else 0)
      in (y, m, d))"

text \<open>The decimal digits of a natural number.\<close>

fun dec :: "nat \<Rightarrow> ustr" where
  "dec n = (if n < 10 then [48 + n] else dec (n div 10) @ [48 + n mod 10])"

declare dec.simps [simp del]

text \<open>\<open>pad w n\<close>: the decimal digits of \<open>n\<close>, zero-padded to width \<open>w\<close>.\<close>

fun pad :: "nat \<Rightarrow> nat \<Rightarrow> ustr" where
  "pad 0 n = []"
| "pad (Suc w) n = pad w (n div 10) @ [48 + n mod 10]"

text \<open>
  \<open>strftime("%Y%m%d")\<close> of a \<open>datetime\<close>, for the years 1 to 9999. A year from 1000 on
  is its four digits; whether \<open>%Y\<close> pads a smaller year with zeros is the choice of the
  C library (\<open>year_padded\<close>).
\<close>

definition strftime_ymd :: "pylib \<Rightarrow> int \<Rightarrow> ustr" where
  "strftime_ymd lib n =
     (case civil_of_ordinal n of
        (y, m, d) \<Rightarrow>
          (if 1000 \<le> y \<or> year_padded lib then pad 4 (nat y) else dec (nat y))
          @ pad 2 (nat m) @ pad 2 (nat d))"

text \<open>\<open>.dt.strftime("%Y-%m-%d")\<close> on the Timestamps of a column, for the years 1000 to 9999.\<close>

definition strftime_dash :: "int \<Rightarrow> ustr" where
  "strftime_dash n =
     (case civil_of_ordinal n of
        (y, m, d) \<Rightarrow> pad 4 (nat y) @ [45] @ pad 2 (nat m) @ [45] @ pad 2 (nat d))"

text \<open>
  \<^verbatim>\<open>
  def _yyyymmdd_range(days: int):
      end = datetime.today()
      start = end - timedelta(days=days)
      return start.strftime("%Y%m%d"), end.strftime("%Y%m%d")
  \<close>
  \<open>today\<close> is the ordinal of \<open>datetime.today()\<close>. \<open>timedelta\<close> refuses more than
  999999999 days, and the subtraction refuses a result outside the years 1 to 9999;
  both raise OverflowError.
\<close>

definition yyyymmdd_range :: "pylib \<Rightarrow> int \<Rightarrow> int \<Rightarrow> pyerr + ustr \<times> ustr" where
  "yyyymmdd_range lib today days =
     (if \<bar>days\<bar> > 999999999 then Inl OverflowError
      else let start = today - days in
        if start < 1 \<or> 3652059 < start then Inl OverflowError
        else Inr (strftime_ymd lib start, strftime_ymd lib today))"

section \<open>Configuration\<close>

text \<open>
  \<open>int(s)\<close> on a \<open>str\<close> in base 10. CPython first rewrites the string: a character
  below 128 stays, any other white-space character becomes a space and any other
  decimal digit becomes its ASCII digit (\<open>decimal\<close> is the table of those digits);
  a character that is none of these makes the string invalid. What remains is read as
  ASCII: white space around (tab to carriage return, and space; not the separators
  U+001C to U+001F that \<open>str.strip\<close> removes), an optional sign, and digits that single
  underscores may separate. A string of more than \<open>max_digits\<close> digits is refused,
  unless \<open>max_digits\<close> is 0; the interpreter accepts no limit below 640.
\<close>

definition is_digit :: "nat \<Rightarrow> bool" where
  "is_digit c \<longleftrightarrow> 48 \<le> c \<and> c \<le> 57"

definition is_ascii_space :: "nat \<Rightarrow> bool" where
  "is_ascii_space c \<longleftrightarrow> (9 \<le> c \<and> c \<le> 13) \<or> c = 32"

definition int_char :: "(nat \<Rightarrow> nat option) \<Rightarrow> nat \<Rightarrow> nat option" where
  "int_char decimal c =
     (if c < 128 then Some c
      else if is_space c then Some 32
      else map_option (\<lambda>d. 48 + d mod 10) (decimal c))"

fun int_body :: "bool \<Rightarrow> nat \<Rightarrow> ustr \<Rightarrow> nat option" where
  "int_body p acc [] = (if p then Some acc else None)"
| "int_body p acc (c # cs) =
     (if is_digit c then int_body True (10 * acc + (c - 48)) cs
      else if c = 95 \<and> p then
        (case cs of [] \<Rightarrow> None
         | d # _ \<Rightarrow> if is_digit d then int_body False acc cs else None)
      else None)"

definition py_int :: "(nat \<Rightarrow> nat option) \<Rightarrow> nat \<Rightarrow> ustr \<Rightarrow> int option" where
  "py_int decimal max_digits s =
     (case those (map (int_char decimal) s) of
        None \<Rightarrow> None
      | Some t \<Rightarrow>
         (case rev (dropWhile is_ascii_space (rev (dropWhile is_ascii_space t))) of
            [] \<Rightarrow> None
          | c # cs \<Rightarrow>
              if max_digits \<noteq> 0 \<and> max 640 max_digits < length (filter is_digit (c # cs))
              then None
              else if c = 45 then map_option (\<lambda>n. - int n) (int_body False 0 cs)
              else if c = 43 then map_option int (int_body False 0 cs)
              else map_option int (int_body False 0 (c # cs))))"

text \<open>
  \<^verbatim>\<open>
  TICKER = os.getenv("TICKER", "092040")
  OUTPUT_DIR = os.getenv("OUTPUT_DIR", "data")
  OUTFILE = os.getenv("OUTFILE", "latest_market_ohlcv.csv")
  LOOKBACK_DAYS = int(os.getenv("LOOKBACK_DAYS", "400"))
  \<close>
  These are module-level statements: they run before \<open>main\<close> is called.
\<close>

record config =
  ticker :: ustr
  output_dir :: ustr
  outfile :: ustr
  lookback_days :: int

definition getenv :: "(ustr \<rightharpoonup> ustr) \<Rightarrow> ustr \<Rightarrow> ustr \<Rightarrow> ustr" where
  "getenv env k dflt = (case env k of None \<Rightarrow> dflt | Some v \<Rightarrow> v)"

definition load_config :: "pylib \<Rightarrow> (ustr \<rightharpoonup> ustr) \<Rightarrow> pyerr + config" where
  "load_config lib env =
     (case py_int (unicode_decimal lib) (int_max_str_digits lib)
             (getenv env (asc ''LOOKBACK_DAYS'') (asc ''400'')) of
        None \<Rightarrow> Inl ValueError
      | Some n \<Rightarrow>
          Inr \<lparr>ticker = getenv env (asc ''TICKER'') (asc ''092040''),
               output_dir = getenv env (asc ''OUTPUT_DIR'') (asc ''data''),
               outfile = getenv env (asc ''OUTFILE'') (asc ''latest_market_ohlcv.csv''),
               lookback_days = n\<rparr>)"

section \<open>Column labels\<close>

text \<open>
  The Korean column labels of the script, by code point:
  \<open>col_nalja\<close> is the provider's date label, \<open>col_ilja\<close> the output's date label;
  \<open>col_siga\<close>, \<open>col_goga\<close>, \<open>col_jeoga\<close>, \<open>col_jongga\<close> are open, high, low, close;
  \<open>col_georaeryang\<close> is the volume, \<open>col_georaedaegeum\<close> the trading value,
  \<open>col_deungnakryul\<close> the change rate; \<open>col_gongmaedo\<close> is the short volume,
  \<open>col_bijung\<close> a ratio, \<open>col_gongmaedo_jango\<close> the short balance.
\<close>

definition col_nalja :: ustr where "col_nalja = [0xB0A0, 0xC9DC]"
definition col_ilja :: ustr where "col_ilja = [0xC77C, 0xC790]"
definition col_siga :: ustr where "col_siga = [0xC2DC, 0xAC00]"
definition col_goga :: ustr where "col_goga = [0xACE0, 0xAC00]"
definition col_jeoga :: ustr where "col_jeoga = [0xC800, 0xAC00]"
definition col_jongga :: ustr where "col_jongga = [0xC885, 0xAC00]"
definition col_georaeryang :: ustr where "col_georaeryang = [0xAC70, 0xB798, 0xB7C9]"
definition col_georaedaegeum :: ustr where "col_georaedaegeum = [0xAC70, 0xB798, 0xB300, 0xAE08]"
definition col_deungnakryul :: ustr where "col_deungnakryul = [0xB4F1, 0xB77D, 0xB960]"
definition col_gongmaedo :: ustr where "col_gongmaedo = [0xACF5, 0xB9E4, 0xB3C4]"
definition col_bijung :: ustr where "col_bijung = [0xBE44, 0xC911]"
definition col_gongmaedo_bijung :: ustr where "col_gongmaedo_bijung = col_gongmaedo @ col_bijung"
definition col_gongmaedo_jango :: ustr where "col_gongmaedo_jango = col_gongmaedo @ [0xC794, 0xACE0]"
definition col_gongmaedo_jango_bijung :: ustr where
  "col_gongmaedo_jango_bijung = col_gongmaedo_jango @ col_bijung"

text \<open>The lists of labels that appear literally in \<open>main\<close>.\<close>

definition numeric_labels :: "ustr list" where
  "numeric_labels =
     [col_siga, col_goga, col_jeoga, col_jongga, col_georaeryang, col_georaedaegeum,
      col_deungnakryul]"

definition price_labels :: "ustr list" where
  "price_labels = [col_siga, col_goga, col_jeoga, col_jongga, col_georaeryang, col_deungnakryul]"

definition short_labels :: "ustr list" where
  "short_labels =
     [col_gongmaedo, col_gongmaedo_bijung, col_gongmaedo_jango, col_gongmaedo_jango_bijung]"

section \<open>DataFrames as the provider returns them\<close>

text \<open>
  A DataFrame: the name of its index (None when unnamed), the index values, the column
  labels, and the rows, each with one cell per label.
\<close>

record frame =
  index_name :: "ustr option"
  index :: "cell list"
  columns :: "ustr list"
  rows :: "cell list list"

text \<open>\<open>df.empty\<close>: some axis has length 0.\<close>

definition frame_empty :: "frame \<Rightarrow> bool" where
  "frame_empty f \<longleftrightarrow> columns f = [] \<or> rows f = []"

text \<open>
  \<open>if df.index.name is not None: df = df.reset_index()\<close>. The index becomes the first
  column under its name; pandas refuses (ValueError) when a column has that name already.
\<close>

definition reset_named_index :: "frame \<Rightarrow> pyerr + frame" where
  "reset_named_index f =
     (case index_name f of
        None \<Rightarrow> Inr f
      | Some n \<Rightarrow>
          if n \<in> set (columns f) then Inl ValueError
          else Inr \<lparr>index_name = None,
                    index = map (\<lambda>i. IntV (int i)) [0..<length (rows f)],
                    columns = n # columns f,
                    rows = map (\<lambda>(i, r). i # r) (zip (index f) (rows f))\<rparr>)"

text \<open>The cell of a row under a label (the first column so labelled).\<close>

definition cell_at :: "ustr list \<Rightarrow> cell list \<Rightarrow> ustr \<Rightarrow> cell" where
  "cell_at cols r c = (case map_of (zip cols r) c of Some v \<Rightarrow> v | None \<Rightarrow> NoneV)"

definition column :: "frame \<Rightarrow> ustr \<Rightarrow> cell list" where
  "column f c = map (\<lambda>r. cell_at (columns f) r c) (rows f)"

text \<open>
  \<open>df[c]\<close> where the code needs a Series: KeyError when no column has the label; with
  the label repeated \<open>df[c]\<close> is a DataFrame, on which both \<open>pd.to_datetime\<close> and
  \<open>apply(_to_num)\<close> raise ValueError.
\<close>

definition series :: "frame \<Rightarrow> ustr \<Rightarrow> pyerr + cell list" where
  "series f c =
     (if c \<notin> set (columns f) then Inl KeyError
      else if count_list (columns f) c \<noteq> 1 then Inl ValueError
      else Inr (column f c))"

text \<open>\<open>df[c] = values\<close> for an existing label.\<close>

definition set_column :: "frame \<Rightarrow> ustr \<Rightarrow> cell list \<Rightarrow> frame" where
  "set_column f c vs =
     f\<lparr>rows := map (\<lambda>(r, v). map (\<lambda>(l, x). if l = c then v else x) (zip (columns f) r))
                   (zip (rows f) vs)\<rparr>"

text \<open>
  \<^verbatim>\<open>
  def _normalize_numeric(df, cols):
      for c in cols:
          if c in df.columns:
              df[c] = df[c].apply(_to_num)
      return df
  \<close>
\<close>

fun normalize_numeric :: "pylib \<Rightarrow> frame \<Rightarrow> ustr list \<Rightarrow> pyerr + frame" where
  "normalize_numeric lib f [] = Inr f"
| "normalize_numeric lib f (c # cs) =
     (if c \<in> set (columns f) then
        bindE (series f c) (\<lambda>xs.
        bindE (map_err (to_num lib) xs) (\<lambda>ys.
        normalize_numeric lib (set_column f c (map FloatV ys)) cs))
      else normalize_numeric lib f cs)"

section \<open>Normalised tables\<close>

text \<open>
  After normalisation a table keeps its date column (labelled \<open>col_ilja\<close>) apart: a row
  is the pair of its date, a \<open>YYYY-MM-DD\<close> string or \<open>None\<close> for NaN, and the cells of
  the other columns in the order of \<open>ncols\<close>.
\<close>

type_synonym nrow = "ustr option \<times> cell list"

record ntable =
  ncols :: "ustr list"
  nrows :: "nrow list"

text \<open>\<open>drop_duplicates("<date>")\<close>: the first row of every date stays (NaN equals NaN here).\<close>

fun drop_duplicates :: "nrow list \<Rightarrow> nrow list" where
  "drop_duplicates [] = []"
| "drop_duplicates (r # rs) = r # filter (\<lambda>r'. fst r' \<noteq> fst r) (drop_duplicates rs)"

text \<open>
  \<open>sort_values("<date>", ascending=...)\<close>: rows with a date in the order of their
  strings, rows without one last (\<open>na_position="last"\<close>). Rows of equal date stay in
  their order here; the default sort of pandas promises no order among them.
\<close>

definition dated :: "nrow list \<Rightarrow> (ustr \<times> cell list) list" where
  "dated rs = concat (map (\<lambda>(k, vs). case k of Some s \<Rightarrow> [(s, vs)] | None \<Rightarrow> []) rs)"

definition sort_values :: "bool \<Rightarrow> nrow list \<Rightarrow> nrow list" where
  "sort_values ascending rs =
     (let ordered = (if ascending then sort_key fst (dated rs)
                     else rev (sort_key fst (rev (dated rs))))
      in map (\<lambda>(s, vs). (Some s, vs)) ordered @ filter (\<lambda>r. fst r = None) rs)"

text \<open>
  The price table (step 1 of \<open>main\<close>):
  \<^verbatim>\<open>
  if ohlcv.index.name is not None:
      ohlcv = ohlcv.reset_index()
  ohlcv = ohlcv.rename(columns={"<nalja>": "<ilja>"})
  ohlcv["<ilja>"] = pd.to_datetime(ohlcv["<ilja>"]).dt.strftime("%Y-%m-%d")
  ohlcv = _normalize_numeric(ohlcv, [<the seven numeric labels>])
  base_cols = [c for c in ["<ilja>", <the six price labels>] if c in ohlcv.columns]
  ohlcv = ohlcv[base_cols].drop_duplicates("<ilja>").sort_values("<ilja>")
  \<close>
  \<open>prepare_ohlcv\<close> is the first three statements up to the reading of the date
  column: it gives the table with its columns renamed and the cells of that column.
\<close>

definition prepare_ohlcv :: "frame \<Rightarrow> pyerr + frame \<times> cell list" where
  "prepare_ohlcv f0 =
     bindE (reset_named_index f0) (\<lambda>f1.
     let f2 = f1\<lparr>columns := map (\<lambda>c. if c = col_nalja then col_ilja else c) (columns f1)\<rparr> in
     bindE (series f2 col_ilja) (\<lambda>dcol. Inr (f2, dcol)))"

definition normalize_ohlcv :: "pylib \<Rightarrow> frame \<Rightarrow> pyerr + ntable" where
  "normalize_ohlcv lib f0 =
     bindE (prepare_ohlcv f0) (\<lambda>(f2, dcol).
     bindE (to_datetime lib dcol) (\<lambda>stamps.
     bindE (normalize_numeric lib f2 numeric_labels) (\<lambda>f3.
     let base = filter (\<lambda>c. c \<in> set (columns f3)) price_labels;
         rs = map (\<lambda>(d, r). (map_option strftime_dash d, map (cell_at (columns f3) r) base))
                  (zip stamps (rows f3))
     in Inr \<lparr>ncols = base, nrows = sort_values True (drop_duplicates rs)\<rparr>)))"

text \<open>
  A short-selling table (steps 2 and 3 of \<open>main\<close>; \<open>qty\<close> is the quantity label of the
  source, \<open>qty_out\<close> and \<open>ratio_out\<close> the labels of the result):
  \<^verbatim>\<open>
  if sv.index.name is not None:
      sv = sv.reset_index()
  sv = sv.rename(columns={c: str(c).strip() for c in sv.columns})
  date_col = "<nalja>" if "<nalja>" in sv.columns else sv.columns[0]
  sv = sv[[date_col, "<qty>", "<bijung>"]].copy()
  sv.columns = ["<ilja>", "<qty_out>", "<ratio_out>"]
  sv["<ilja>"] = pd.to_datetime(sv["<ilja>"]).dt.strftime("%Y-%m-%d")
  sv = _normalize_numeric(sv, ["<qty_out>", "<ratio_out>"]).dropna(subset=["<ilja>"])
  \<close>
  Selecting a list of labels raises KeyError when one is missing; when a label is
  repeated in the table the selection has more than three columns and the assignment of
  three names raises ValueError. \<open>select_short\<close> is the statements up to the
  assignment of the names: it gives the cells of the date column, of the quantity
  column and of the ratio column.
\<close>

definition select_short :: "ustr \<Rightarrow> frame \<Rightarrow> pyerr + cell list \<times> cell list \<times> cell list" where
  "select_short qty f0 =
     bindE (reset_named_index f0) (\<lambda>f1.
     let f2 = f1\<lparr>columns := map strip (columns f1)\<rparr> in
     (case columns f2 of
        [] \<Rightarrow> Inl IndexError
      | c0 # _ \<Rightarrow>
          let date_col = (if col_nalja \<in> set (columns f2) then col_nalja else c0);
              wanted = [date_col, qty, col_bijung]
          in if \<exists>c \<in> set wanted. c \<notin> set (columns f2) then Inl KeyError
             else if sum_list (map (count_list (columns f2)) wanted) \<noteq> 3 then Inl ValueError
             else Inr (column f2 date_col, column f2 qty, column f2 col_bijung)))"

definition normalize_short :: "pylib \<Rightarrow> ustr \<Rightarrow> ustr \<Rightarrow> ustr \<Rightarrow> frame \<Rightarrow> pyerr + ntable" where
  "normalize_short lib qty qty_out ratio_out f0 =
     bindE (select_short qty f0) (\<lambda>(ds, qs, ps).
     bindE (to_datetime lib ds) (\<lambda>stamps.
     bindE (map_err (to_num lib) qs) (\<lambda>xs.
     bindE (map_err (to_num lib) ps) (\<lambda>ys.
     let rs = map (\<lambda>(d, x, y). (map_option strftime_dash d, [FloatV x, FloatV y]))
                  (zip stamps (zip xs ys))
     in Inr \<lparr>ncols = [qty_out, ratio_out], nrows = filter (\<lambda>r. fst r \<noteq> None) rs\<rparr>))))"

text \<open>
  \<^verbatim>\<open>
  if sv is not None and isinstance(sv, pd.DataFrame) and not sv.empty:
      ...
  else:
      sv = pd.DataFrame(columns=["<ilja>", "<qty_out>", "<ratio_out>"])
  \<close>
  A fetch result is \<open>None\<close> when it is \<open>None\<close> or not a DataFrame.
\<close>

definition short_table ::
  "pylib \<Rightarrow> ustr \<Rightarrow> ustr \<Rightarrow> ustr \<Rightarrow> frame option \<Rightarrow> pyerr + ntable" where
  "short_table lib qty qty_out ratio_out res =
     (case res of
        None \<Rightarrow> Inr \<lparr>ncols = [qty_out, ratio_out], nrows = []\<rparr>
      | Some f \<Rightarrow>
          if \<not> frame_empty f then normalize_short lib qty qty_out ratio_out f
          else Inr \<lparr>ncols = [qty_out, ratio_out], nrows = []\<rparr>)"

section \<open>Merging, filling and sorting\<close>

text \<open>
  \<open>l.merge(r, on="<ilja>", how="left")\<close>: every row of the left table, in order, once
  for each row of the right table with the same date; with no such row, once, with NaN
  in the columns of the right table.
\<close>

fun joined_rows :: "ntable \<Rightarrow> nrow \<Rightarrow> nrow list" where
  "joined_rows r (k, vs) =
     (case filter (\<lambda>r'. fst r' = k) (nrows r) of
        [] \<Rightarrow> [(k, vs @ replicate (length (ncols r)) (FloatV NaN))]
      | ms \<Rightarrow> map (\<lambda>(k', ws). (k, vs @ ws)) ms)"

definition merge_left :: "ntable \<Rightarrow> ntable \<Rightarrow> ntable" where
  "merge_left l r =
     \<lparr>ncols = ncols l @ ncols r, nrows = concat (map (joined_rows r) (nrows l))\<rparr>"

text \<open>
  \<^verbatim>\<open>
  for c in [<the four short-selling labels>]:
      if c in out.columns:
          out[c] = out[c].fillna(0)
  \<close>
  The filled value is the number 0 (pandas stores it as 0.0 in a column of floats).
\<close>

definition fill0 :: "cell \<Rightarrow> cell" where
  "fill0 v = (if isna v then IntV 0 else v)"

definition fillna_col :: "ustr \<Rightarrow> ntable \<Rightarrow> ntable" where
  "fillna_col c t =
     (if c \<in> set (ncols t) then
        t\<lparr>nrows := map (\<lambda>(k, vs).
                      (k, map (\<lambda>(l, v). if l = c then fill0 v else v) (zip (ncols t) vs)))
                    (nrows t)\<rparr>
      else t)"

definition fillna_cols :: "ustr list \<Rightarrow> ntable \<Rightarrow> ntable" where
  "fillna_cols cs t = fold fillna_col cs t"

section \<open>The pipeline up to the table that is written\<close>

text \<open>The three operations of the market-data provider; each may raise.\<close>

record provider =
  get_market_ohlcv :: "ustr \<Rightarrow> ustr \<Rightarrow> ustr \<Rightarrow> pyerr + frame option"
  get_shorting_volume_by_date :: "ustr \<Rightarrow> ustr \<Rightarrow> ustr \<Rightarrow> pyerr + frame option"
  get_shorting_balance_by_date :: "ustr \<Rightarrow> ustr \<Rightarrow> ustr \<Rightarrow> pyerr + frame option"

text \<open>
  Steps 1 to 3 of \<open>main\<close>: each fetch with the normalisation of its result. A price
  result that is \<open>None\<close> fails at \<open>ohlcv.index\<close> with AttributeError.
\<close>

definition price_table :: "pylib \<Rightarrow> provider \<Rightarrow> config \<Rightarrow> ustr \<Rightarrow> ustr \<Rightarrow> pyerr + ntable" where
  "price_table lib prov cfg s e =
     bindE (get_market_ohlcv prov s e (ticker cfg)) (\<lambda>raw.
     case raw of None \<Rightarrow> Inl AttributeError | Some f \<Rightarrow> normalize_ohlcv lib f)"

definition volume_table :: "pylib \<Rightarrow> provider \<Rightarrow> config \<Rightarrow> ustr \<Rightarrow> ustr \<Rightarrow> pyerr + ntable" where
  "volume_table lib prov cfg s e =
     bindE (get_shorting_volume_by_date prov s e (ticker cfg))
       (short_table lib col_gongmaedo col_gongmaedo col_gongmaedo_bijung)"

definition balance_table :: "pylib \<Rightarrow> provider \<Rightarrow> config \<Rightarrow> ustr \<Rightarrow> ustr \<Rightarrow> pyerr + ntable" where
  "balance_table lib prov cfg s e =
     bindE (get_shorting_balance_by_date prov s e (ticker cfg))
       (short_table lib col_gongmaedo_jango col_gongmaedo_jango col_gongmaedo_jango_bijung)"

text \<open>
  Steps 4 and 5 and the final sort:
  \<^verbatim>\<open>
  out = ohlcv.merge(sv, on="<ilja>", how="left").merge(sb, on="<ilja>", how="left")
  for c in [...]: ...fillna(0)
  out = out.sort_values("<ilja>", ascending=False)
  \<close>
\<close>

definition assemble :: "ntable \<Rightarrow> ntable \<Rightarrow> ntable \<Rightarrow> ntable" where
  "assemble ohlcv sv sb =
     (let out = fillna_cols short_labels (merge_left (merge_left ohlcv sv) sb)
      in out\<lparr>nrows := sort_values False (nrows out)\<rparr>)"

text \<open>The table that \<open>main\<close> writes, in the order of the statements of the source.\<close>

definition build :: "pylib \<Rightarrow> provider \<Rightarrow> config \<Rightarrow> int \<Rightarrow> pyerr + ntable" where
  "build lib prov cfg today =
     bindE (yyyymmdd_range lib today (lookback_days cfg)) (\<lambda>(s, e).
     bindE (price_table lib prov cfg s e) (\<lambda>ohlcv.
     bindE (volume_table lib prov cfg s e) (\<lambda>sv.
     bindE (balance_table lib prov cfg s e) (\<lambda>sb.
     Inr (assemble ohlcv sv sb)))))"

text \<open>\<open>list(out.columns)\<close>: the date label and the labels of the other columns.\<close>

definition out_columns :: "ntable \<Rightarrow> ustr list" where
  "out_columns t = col_ilja # ncols t"

section \<open>Writing the file\<close>

text \<open>
  \<open>out.to_csv(outfile, index=False, encoding="utf-8", lineterminator="\n")\<close>: the
  header line and one line per row, fields separated by commas, every line ended by a
  line feed (code point 10); a missing value is the empty field. None of the labels
  and dates written needs quoting.
\<close>

fun join_with :: "ustr \<Rightarrow> ustr list \<Rightarrow> ustr" where
  "join_with sep [] = []"
| "join_with sep [x] = x"
| "join_with sep (x # y # ys) = x @ sep @ join_with sep (y # ys)"

definition csv_cell :: "pylib \<Rightarrow> cell \<Rightarrow> ustr" where
  "csv_cell lib v = (if isna v then [] else csv_number lib v)"

definition csv_line :: "ustr list \<Rightarrow> ustr" where
  "csv_line fs = join_with [44] fs @ [10]"

definition csv_text :: "pylib \<Rightarrow> ntable \<Rightarrow> ustr" where
  "csv_text lib t =
     concat (map csv_line
       (out_columns t #
        map (\<lambda>(k, vs). (case k of None \<Rightarrow> [] | Some s \<Rightarrow> s) # map (csv_cell lib) vs) (nrows t)))"

text \<open>The UTF-8 encoding of a code point and of a string; no byte-order mark is added.\<close>

definition utf8_char :: "nat \<Rightarrow> nat list" where
  "utf8_char c =
     (if c < 128 then [c]
      else if c < 2048 then [192 + c div 64, 128 + c mod 64]
      else if c < 65536 then [224 + c div 4096, 128 + (c div 64) mod 64, 128 + c mod 64]
      else [240 + c div 262144, 128 + (c div 4096) mod 64, 128 + (c div 64) mod 64,
            128 + c mod 64])"

definition encode_utf8 :: "ustr \<Rightarrow> string" where
  "encode_utf8 s = map char_of (concat (map utf8_char s))"

definition to_csv :: "pylib \<Rightarrow> ntable \<Rightarrow> string" where
  "to_csv lib t = encode_utf8 (csv_text lib t)"

section \<open>The file system and the output streams\<close>

text \<open>
  The part of the world the script acts on: the directories and the files with their
  bytes, each under the name by which the operating system knows it, and the lines
  printed so far on standard output and standard error. What a path denotes, and which
  operations the operating system refuses, is the operating system's: \<open>os_makedirs\<close>
  and \<open>os_write\<close> are parameters. Creating directories changes no file, so
  \<open>os_makedirs\<close> returns directories only.
\<close>

record world =
  dirs :: "ustr set"
  files :: "ustr \<rightharpoonup> string"
  stdout :: "ustr list"
  stderr :: "ustr list"

text \<open>\<open>os.makedirs(path, exist_ok=True)\<close>\<close>

definition makedirs :: "pylib \<Rightarrow> ustr \<Rightarrow> world \<Rightarrow> (pyerr + unit) \<times> world" where
  "makedirs lib p w =
     (case os_makedirs lib p (dirs w) (files w) of (r, ds) \<Rightarrow> (r, w\<lparr>dirs := ds\<rparr>))"

text \<open>\<open>os.path.join(a, b)\<close> on POSIX paths.\<close>

definition path_join :: "ustr \<Rightarrow> ustr \<Rightarrow> ustr" where
  "path_join a b =
     (if b \<noteq> [] \<and> hd b = 47 then b
      else if a = [] \<or> last a = 47 then a @ b
      else a @ [47] @ b)"

text \<open>The file part of \<open>to_csv(path, ...)\<close>: the bytes are written to the path.\<close>

definition write_file :: "pylib \<Rightarrow> ustr \<Rightarrow> string \<Rightarrow> world \<Rightarrow> (pyerr + unit) \<times> world" where
  "write_file lib p bytes w =
     (case os_write lib p bytes (dirs w) (files w) of (r, fs) \<Rightarrow> (r, w\<lparr>files := fs\<rparr>))"

text \<open>
  \<^verbatim>\<open>
  def main():
      os.makedirs(OUTPUT_DIR, exist_ok=True)
      ...                                        # steps 1 to 5 and the sort: build
      outfile = os.path.join(OUTPUT_DIR, OUTFILE)
      out.to_csv(outfile, index=False, encoding="utf-8", lineterminator="\n")
      print(f"[OK] saved: {outfile}")
      print(f"cols = {list(out.columns)}")
      print(f"rows = {len(out)} (from {out['<ilja>'].min()} to {out['<ilja>'].max()})")
  \<close>
  The result is what \<open>main\<close> raises, if anything, and the world as it leaves it.
\<close>

definition cols_line :: "ntable \<Rightarrow> ustr" where
  "cols_line t =
     asc ''cols = ['' @ join_with (asc '', '') (map (\<lambda>c. [39] @ c @ [39]) (out_columns t))
       @ asc '']''"

definition print_out :: "pylib \<Rightarrow> ustr \<Rightarrow> world \<Rightarrow> (pyerr + unit) \<times> world" where
  "print_out lib line w =
     (case stdout_error lib line of
        Some e \<Rightarrow> (Inl e, w)
      | None \<Rightarrow> (Inr (), w\<lparr>stdout := stdout w @ [line]\<rparr>))"

definition main :: "pylib \<Rightarrow> provider \<Rightarrow> config \<Rightarrow> int \<Rightarrow> world \<Rightarrow> (pyerr + unit) \<times> world" where
  "main lib prov cfg today w =
     (case makedirs lib (output_dir cfg) w of
        (Inl e, w1) \<Rightarrow> (Inl e, w1)
      | (Inr u, w1) \<Rightarrow>
         (case build lib prov cfg today of
            Inl e \<Rightarrow> (Inl e, w1)
          | Inr out \<Rightarrow>
             let p = path_join (output_dir cfg) (outfile cfg) in
             (case write_file lib p (to_csv lib out) w1 of
                (Inl e, w2) \<Rightarrow> (Inl e, w2)
              | (Inr u2, w2) \<Rightarrow>
                 (case print_out lib (asc ''[OK] saved: '' @ p) w2 of
                    (Inl e, w3) \<Rightarrow> (Inl e, w3)
                  | (Inr u3, w3) \<Rightarrow>
                     (case print_out lib (cols_line out) w3 of
                        (Inl e, w4) \<Rightarrow> (Inl e, w4)
                      | (Inr u4, w4) \<Rightarrow>
                         (case date_min lib (map fst (nrows out)) of
                            Inl e \<Rightarrow> (Inl e, w4)
                          | Inr lo \<Rightarrow>
                             (case date_max lib (map fst (nrows out)) of
                                Inl e \<Rightarrow> (Inl e, w4)
                              | Inr hi \<Rightarrow>
                                 print_out lib
                                   (asc ''rows = '' @ dec (length (nrows out)) @ asc '' (from ''
                                      @ lo @ asc '' to '' @ hi @ asc '')'') w4)))))))"

text \<open>
  What the interpreter does with something raised that nothing catches: for
  \<open>SystemExit\<close> it ends the process with that status (as the operating system keeps
  it, modulo 256) and prints nothing; otherwise it prints the traceback on standard
  error and ends the process, with status 1 for an exception and, on POSIX, by the
  signal of the interrupt for \<open>KeyboardInterrupt\<close>, which a shell reports as status 130.
\<close>

definition uncaught :: "pylib \<Rightarrow> pyerr \<Rightarrow> world \<Rightarrow> int \<times> world" where
  "uncaught lib e w =
     (case e of
        SystemExit n \<Rightarrow> (n mod 256, w)
      | _ \<Rightarrow>
          (if e = KeyboardInterrupt then 130 else 1,
           w\<lparr>stderr := stderr w @ asc ''Traceback (most recent call last):''
                                      # traceback_body lib e\<rparr>))"

text \<open>
  The script as a process: the module-level configuration, then
  \<^verbatim>\<open>
  if __name__ == "__main__":
      try:
          main()
      except Exception as e:
          print(f"[ERROR] {e}", file=sys.stderr)
          sys.exit(1)
  \<close>
  The result is the exit status and the world. An exception of the module-level
  statements is outside the \<open>try\<close>, and \<open>except Exception\<close> does not catch what is no
  \<open>Exception\<close>: both are left to the interpreter. Standard error takes every line.
\<close>

definition script ::
  "pylib \<Rightarrow> provider \<Rightarrow> (ustr \<rightharpoonup> ustr) \<Rightarrow> int \<Rightarrow> world \<Rightarrow> int \<times> world" where
  "script lib prov env today w =
     (case load_config lib env of
        Inl e \<Rightarrow> uncaught lib e w
      | Inr cfg \<Rightarrow>
         (case main lib prov cfg today w of
            (Inr u, w') \<Rightarrow> (0, w')
          | (Inl e, w') \<Rightarrow>
              if is_exception e
              then (1, w'\<lparr>stderr := stderr w' @ [asc ''[ERROR] '' @ exc_text lib e]\<rparr>)
              else uncaught lib e w'))"

section \<open>A library instance and tables for the examples\<close>

text \<open>
  The ordinal of a civil date, and the reading of a \<open>YYYY-MM-DD\<close> string as a date:
  the string is a date when the ordinal of its numbers gives the same numbers back.
\<close>

definition ordinal_of_civil :: "int \<Rightarrow> int \<Rightarrow> int \<Rightarrow> int" where
  "ordinal_of_civil y m d =
     (let y' = (if m \<le> 2 then y - 1 else y);
          era = y' div 400;
          yoe = y' mod 400;
          mp = (m + 9) mod 12;
          doy = (153 * mp + 2) div 5 + d - 1;
          doe = yoe * 365 + yoe div 4 - yoe div 100 + doy
      in era * 146097 + doe - 305)"

fun iso_date :: "ustr \<Rightarrow> int option" where
  "iso_date [y1, y2, y3, y4, s1, m1, m2, s2, d1, d2] =
     (if s1 = 45 \<and> s2 = 45 \<and> list_all is_digit [y1, y2, y3, y4, m1, m2, d1, d2] then
        let y = int (1000 * (y1 - 48) + 100 * (y2 - 48) + 10 * (y3 - 48) + (y4 - 48));
            m = int (10 * (m1 - 48) + (m2 - 48));
            d = int (10 * (d1 - 48) + (d2 - 48));
            n = ordinal_of_civil y m d
        in if civil_of_ordinal n = (y, m, d) then Some n else None
      else None)"
| "iso_date s = None"

definition sample_stamp :: "cell \<Rightarrow> pyerr + int option" where
  "sample_stamp c =
     (case c of
        NoneV \<Rightarrow> Inr None
      | StampV d \<Rightarrow> Inr (Some d)
      | StrV s \<Rightarrow> (case iso_date s of Some d \<Rightarrow> Inr (Some d) | None \<Rightarrow> Inl ValueError)
      | FloatV f \<Rightarrow> (if f = NaN then Inr None else Inl ValueError)
      | IntV i \<Rightarrow> Inl ValueError)"

definition sample_number :: "cell \<Rightarrow> ustr" where
  "sample_number c =
     (case c of
        IntV i \<Rightarrow> (if i < 0 then [45] else []) @ dec (nat \<bar>i\<bar>)
      | FloatV (Finite q) \<Rightarrow> (if q < 0 then [45] else []) @ dec (nat \<bar>\<lfloor>q\<rfloor>\<bar>) @ asc ''.0''
      | _ \<Rightarrow> [])"

definition sample_text :: "pyerr \<Rightarrow> ustr" where
  "sample_text e =
     (case e of
        KeyError \<Rightarrow> asc ''KeyError'' | ValueError \<Rightarrow> asc ''ValueError''
      | OverflowError \<Rightarrow> asc ''OverflowError'' | AttributeError \<Rightarrow> asc ''AttributeError''
      | IndexError \<Rightarrow> asc ''IndexError'' | OSError \<Rightarrow> asc ''OSError''
      | FileExistsError \<Rightarrow> asc ''FileExistsError''
      | FileNotFoundError \<Rightarrow> asc ''FileNotFoundError''
      | NotADirectoryError \<Rightarrow> asc ''NotADirectoryError''
      | PermissionError \<Rightarrow> asc ''PermissionError''
      | IsADirectoryError \<Rightarrow> asc ''IsADirectoryError'' | LibError m \<Rightarrow> m
      | KeyboardInterrupt \<Rightarrow> asc ''KeyboardInterrupt''
      | SystemExit n \<Rightarrow> asc ''SystemExit'')"

definition sample_extreme :: "bool \<Rightarrow> ustr option list \<Rightarrow> pyerr + ustr" where
  "sample_extreme lowest ks =
     (case sort (concat (map (\<lambda>k. case k of None \<Rightarrow> [] | Some s \<Rightarrow> [s]) ks)) of
        [] \<Rightarrow> Inr (asc ''nan'')
      | x # xs \<Rightarrow> Inr (if lowest then x else last (x # xs)))"

text \<open>
  The decimal digits of four scripts: Arabic-Indic, Extended Arabic-Indic, Devanagari
  and Fullwidth.
\<close>

definition sample_decimal :: "nat \<Rightarrow> nat option" where
  "sample_decimal c =
     (if 1632 \<le> c \<and> c \<le> 1641 then Some (c - 1632)
      else if 1776 \<le> c \<and> c \<le> 1785 then Some (c - 1776)
      else if 2406 \<le> c \<and> c \<le> 2415 then Some (c - 2406)
      else if 65296 \<le> c \<and> c \<le> 65305 then Some (c - 65296)
      else None)"

text \<open>
  The operating system on the paths of the examples, relative paths of plain names
  under directories that are listed by their path: a directory is created unless a
  file has its name; a file is written unless its path is a directory or the
  directory it lies in does not exist.
\<close>

definition sample_dirname :: "ustr \<Rightarrow> ustr" where
  "sample_dirname p = rev (drop 1 (dropWhile (\<lambda>c. c \<noteq> 47) (rev p)))"

definition sample_makedirs ::
  "ustr \<Rightarrow> ustr set \<Rightarrow> (ustr \<rightharpoonup> string) \<Rightarrow> (pyerr + unit) \<times> ustr set" where
  "sample_makedirs p ds fs =
     (if p = [] then (Inl FileNotFoundError, ds)
      else if p \<in> dom fs then (Inl FileExistsError, ds)
      else (Inr (), insert p ds))"

definition sample_write ::
  "ustr \<Rightarrow> string \<Rightarrow> ustr set \<Rightarrow> (ustr \<rightharpoonup> string) \<Rightarrow> (pyerr + unit) \<times> (ustr \<rightharpoonup> string)" where
  "sample_write p bytes ds fs =
     (if p \<in> ds then (Inl IsADirectoryError, fs)
      else if sample_dirname p \<noteq> [] \<and> sample_dirname p \<notin> ds then (Inl OSError, fs)
      else (Inr (), fs(p \<mapsto> bytes)))"

text \<open>
  \<open>float(i)\<close> on an integer: OverflowError from \<open>2 ^ 1024 - 2 ^ 970\<close> on, which rounds
  to no float; below that the nearest float, which is \<open>i\<close> itself for the integers of
  the examples.
\<close>

definition sample_float :: "int \<Rightarrow> pyfloat option" where
  "sample_float i = (if \<bar>i\<bar> < 2 ^ 1024 - 2 ^ 970 then Some (Finite (of_int i)) else None)"

text \<open>
  The library on the inputs of the examples: integers that a float holds exactly,
  integer literals, Timestamps, missing values, ISO dates, and strings that are neither
  a number nor a date (\<open>float\<close> raises ValueError on them, and so does \<open>to_datetime\<close>,
  whose default is \<open>errors="raise"\<close>). On other inputs its values are placeholders.
\<close>

definition sample_lib :: pylib where
  "sample_lib =
     \<lparr>float_of_int = sample_float,
      float_of_str = (\<lambda>s. map_option (\<lambda>i. Finite (of_int i)) (py_int sample_decimal 0 s)),
      str_of_stamp = (\<lambda>d. strftime_dash d @ asc '' 00:00:00''),
      to_datetime = map_err sample_stamp,
      csv_number = sample_number,
      date_min = sample_extreme True,
      date_max = sample_extreme False,
      year_padded = False,
      unicode_decimal = sample_decimal,
      int_max_str_digits = 4300,
      os_makedirs = sample_makedirs,
      os_write = sample_write,
      stdout_error = (\<lambda>line. None),
      exc_text = sample_text,
      traceback_body = (\<lambda>e. [sample_text e])\<rparr>"

text \<open>
  Tables as the provider returns them: the dates are Timestamps in an index named
  \<open>col_nalja\<close>. Ordinal 738890 is 2024-01-05.
\<close>

definition price_frame_of :: "cell list \<Rightarrow> frame" where
  "price_frame_of ds =
     \<lparr>index_name = Some col_nalja,
      index = ds,
      columns = [col_siga, col_goga, col_jeoga, col_jongga, col_georaeryang,
                 col_georaedaegeum, col_deungnakryul],
      rows = map (\<lambda>d. [IntV 100, IntV 110, IntV 90, IntV 105, StrV (asc ''1,234''),
                        IntV 129570, FloatV (Finite 5)]) ds\<rparr>"

definition price_frame :: "int list \<Rightarrow> frame" where
  "price_frame ds = price_frame_of (map StampV ds)"

definition short_frame :: "ustr \<Rightarrow> cell list \<Rightarrow> frame" where
  "short_frame qty ds =
     \<lparr>index_name = Some col_nalja,
      index = ds,
      columns = [qty, col_bijung],
      rows = map (\<lambda>d. [IntV 7, FloatV (Finite 2)]) ds\<rparr>"

definition fixed_provider :: "frame option \<Rightarrow> frame option \<Rightarrow> frame option \<Rightarrow> provider" where
  "fixed_provider p v b =
     \<lparr>get_market_ohlcv = (\<lambda>s e t. Inr p),
      get_shorting_volume_by_date = (\<lambda>s e t. Inr v),
      get_shorting_balance_by_date = (\<lambda>s e t. Inr b)\<rparr>"

definition default_config :: config where
  "default_config =
     \<lparr>ticker = asc ''092040'', output_dir = asc ''data'',
      outfile = asc ''latest_market_ohlcv.csv'', lookback_days = 400\<rparr>"

definition empty_world :: world where
  "empty_world = \<lparr>dirs = {}, files = Map.empty, stdout = [], stderr = []\<rparr>"

text \<open>
  The normalised row of \<open>price_frame\<close> without its date, a short-selling result with
  the columns of the provider and no rows, and the window of the examples: 400 days
  back from ordinal 739000.
\<close>

definition price_row :: "cell list" where
  "price_row =
     [FloatV (Finite 100), FloatV (Finite 110), FloatV (Finite 90), FloatV (Finite 105),
      FloatV (Finite 1234), FloatV (Finite 5)]"

definition no_rows_frame :: frame where
  "no_rows_frame =
     \<lparr>index_name = Some col_nalja, index = [],
      columns = [col_gongmaedo_jango, col_bijung], rows = []\<rparr>"

definition sample_start :: ustr where
  "sample_start = strftime_ymd sample_lib 738600"

definition sample_end :: ustr where
  "sample_end = strftime_ymd sample_lib 739000"

text \<open>
  Three trading days, 2024-01-04 to 2024-01-06, with no short-selling data: the volume
  result is absent and the balance result has no rows.
\<close>

definition three_days_provider :: provider where
  "three_days_provider =
     fixed_provider (Some (price_frame [738889, 738890, 738891])) None (Some no_rows_frame)"

definition three_days_prices :: ntable where
  "three_days_prices =
     \<lparr>ncols = price_labels,
      nrows = [(Some (asc ''2024-01-04''), price_row), (Some (asc ''2024-01-05''), price_row),
               (Some (asc ''2024-01-06''), price_row)]\<rparr>"

definition three_days_output :: ntable where
  "three_days_output =
     \<lparr>ncols = price_labels @ short_labels,
      nrows = [(Some (asc ''2024-01-06''), price_row @ [IntV 0, IntV 0, IntV 0, IntV 0]),
               (Some (asc ''2024-01-05''), price_row @ [IntV 0, IntV 0, IntV 0, IntV 0]),
               (Some (asc ''2024-01-04''), price_row @ [IntV 0, IntV 0, IntV 0, IntV 0])]\<rparr>"

text \<open>
  One trading day, 2024-01-05, for which the short-volume result has two rows; the
  balance result is absent.
\<close>

definition repeated_date_provider :: provider where
  "repeated_date_provider =
     fixed_provider (Some (price_frame [738890]))
       (Some (short_frame col_gongmaedo [StampV 738890, StampV 738890])) None"

definition one_day_prices :: ntable where
  "one_day_prices = \<lparr>ncols = price_labels, nrows = [(Some (asc ''2024-01-05''), price_row)]\<rparr>"

definition repeated_date_volumes :: ntable where
  "repeated_date_volumes =
     \<lparr>ncols = [col_gongmaedo, col_gongmaedo_bijung],
      nrows = [(Some (asc ''2024-01-05''), [FloatV (Finite 7), FloatV (Finite 2)]),
               (Some (asc ''2024-01-05''), [FloatV (Finite 7), FloatV (Finite 2)])]\<rparr>"

definition repeated_date_output :: ntable where
  "repeated_date_output =
     \<lparr>ncols = price_labels @ short_labels,
      nrows = [(Some (asc ''2024-01-05''),
                  price_row @ [FloatV (Finite 7), FloatV (Finite 2), IntV 0, IntV 0]),
               (Some (asc ''2024-01-05''),
                  price_row @ [FloatV (Finite 7), FloatV (Finite 2), IntV 0, IntV 0])]\<rparr>"

text \<open>
  One trading day as a provider without the change rate and the trading value returns
  it: the five columns open, high, low, close and volume; no short-selling data.
\<close>

definition narrow_frame :: frame where
  "narrow_frame =
     \<lparr>index_name = Some col_nalja,
      index = [StampV 738890],
      columns = [col_siga, col_goga, col_jeoga, col_jongga, col_georaeryang],
      rows = [[IntV 100, IntV 110, IntV 90, IntV 105, IntV 1234]]\<rparr>"

definition narrow_provider :: provider where
  "narrow_provider = fixed_provider (Some narrow_frame) None None"

definition narrow_prices :: ntable where
  "narrow_prices =
     \<lparr>ncols = [col_siga, col_goga, col_jeoga, col_jongga, col_georaeryang],
      nrows = [(Some (asc ''2024-01-05''),
                [FloatV (Finite 100), FloatV (Finite 110), FloatV (Finite 90),
                 FloatV (Finite 105), FloatV (Finite 1234)])]\<rparr>"

definition narrow_output :: ntable where
  "narrow_output =
     \<lparr>ncols = [col_siga, col_goga, col_jeoga, col_jongga, col_georaeryang] @ short_labels,
      nrows = [(Some (asc ''2024-01-05''),
                [FloatV (Finite 100), FloatV (Finite 110), FloatV (Finite 90),
                 FloatV (Finite 105), FloatV (Finite 1234), IntV 0, IntV 0, IntV 0, IntV 0])]\<rparr>"

text \<open>
  Short-volume results whose second row has no date (\<open>NaT\<close>), or the text \<open>-\<close> for
  a date; a price result whose second row has no date; and what the first and the last
  normalise to.
\<close>

definition undated_volume_frame :: frame where
  "undated_volume_frame = short_frame col_gongmaedo [StampV 738890, NoneV]"

definition dash_volume_frame :: frame where
  "dash_volume_frame = short_frame col_gongmaedo [StampV 738890, StrV (asc ''-'')]"

definition undated_price_frame :: frame where
  "undated_price_frame = price_frame_of [StampV 738890, NoneV]"

definition one_day_volumes :: ntable where
  "one_day_volumes =
     \<lparr>ncols = [col_gongmaedo, col_gongmaedo_bijung],
      nrows = [(Some (asc ''2024-01-05''), [FloatV (Finite 7), FloatV (Finite 2)])]\<rparr>"

definition undated_prices :: ntable where
  "undated_prices =
     \<lparr>ncols = price_labels,
      nrows = [(Some (asc ''2024-01-05''), price_row), (None, price_row)]\<rparr>"

definition dash_provider :: provider where
  "dash_provider = fixed_provider (Some (price_frame [738890])) (Some dash_volume_frame) None"





definition sample_path :: ustr where
  "sample_path = asc ''data/latest_market_ohlcv.csv''"


definition data_file_world :: world where
  "data_file_world = empty_world\<lparr>files := [asc ''data'' \<mapsto> []]\<rparr>"

definition old_file_world :: world where
  "old_file_world = empty_world\<lparr>dirs := {asc ''data''}, files := [sample_path \<mapsto> ''old'']\<rparr>"

text \<open>A normalised table is aligned when every row has one cell per column.\<close>

definition aligned :: "ntable \<Rightarrow> bool" where
  "aligned t \<longleftrightarrow> (\<forall>r \<in> set (nrows t). length (snd r) = length (ncols t))"

section \<open>Basic facts\<close>

lemma bindE_Inr [simp]: "bindE (Inr x) f = f x"
  by (simp add: bindE_def)

lemma bindE_Inl [simp]: "bindE (Inl e) f = Inl e"
  by (simp add: bindE_def)

lemma bindE_weak_cong: "m = m' \<Longrightarrow> bindE m f = bindE m' f"
  by simp

lemmas eval_congs = bindE_weak_cong sum.case_cong_weak option.case_cong_weak
  list.case_cong_weak prod.case_cong_weak let_weak_cong

lemma bindE_Inr_iff: "bindE m f = Inr y \<longleftrightarrow> (\<exists>x. m = Inr x \<and> f x = Inr y)"
  by (cases m) auto

lemma map_err_length: "map_err f xs = Inr ys \<Longrightarrow> length ys = length xs"
  by (induction xs arbitrary: ys) (auto split: sum.splits)

lemma drop_duplicates_subset: "set (drop_duplicates rs) \<subseteq> set rs"
  by (induction rs) auto

lemma drop_duplicates_keys: "fst ` set (drop_duplicates rs) = fst ` set rs"
proof (induction rs)
  case Nil
  then show ?case by simp
next
  case (Cons r rs)
  have "fst ` set (filter (\<lambda>r'. fst r' \<noteq> fst r) (drop_duplicates rs))
          = fst ` set (drop_duplicates rs) - {fst r}"
    by auto
  with Cons show ?case by auto
qed

lemma drop_duplicates_distinct: "distinct (map fst (drop_duplicates rs))"
  by (induction rs) (auto simp: distinct_map_filter)

lemma set_dated: "set (dated rs) = {(s, vs). (Some s, vs) \<in> set rs}"
  by (induction rs) (auto simp: dated_def split: option.splits)

lemma set_sort_values: "set (sort_values a rs) = set rs"
proof -
  have "(\<lambda>(s, vs). (Some s, vs)) ` set (dated rs) = {r \<in> set rs. fst r \<noteq> None}"
    by (force simp: set_dated)
  then show ?thesis
    by (auto simp: sort_values_def Let_def)
qed

lemma length_dated: "length (dated rs) + length (filter (\<lambda>r. fst r = None) rs) = length rs"
  by (induction rs) (auto simp: dated_def split: option.splits)

lemma length_sort_values: "length (sort_values a rs) = length rs"
  using length_dated [of rs] by (simp add: sort_values_def Let_def)

section \<open>The left join\<close>

lemma ncols_merge_left [simp]: "ncols (merge_left l r) = ncols l @ ncols r"
  by (simp add: merge_left_def)

lemma nrows_merge_left: "nrows (merge_left l r) = concat (map (joined_rows r) (nrows l))"
  by (simp add: merge_left_def)

lemma set_joined_rows:
  "set (joined_rows r (k, vs)) =
     (if k \<notin> fst ` set (nrows r)
      then {(k, vs @ replicate (length (ncols r)) (FloatV NaN))}
      else {(k, vs @ ws) | ws. (k, ws) \<in> set (nrows r)})"
proof (cases "filter (\<lambda>r'. fst r' = k) (nrows r)")
  case Nil
  then have "k \<notin> fst ` set (nrows r)"
    by (auto simp: filter_empty_conv)
  with Nil show ?thesis by simp
next
  case (Cons m ms)
  then have "m \<in> set (filter (\<lambda>r'. fst r' = k) (nrows r))" by simp
  then have "m \<in> set (nrows r) \<and> fst m = k" by simp
  then have "k \<in> fst ` set (nrows r)" by (metis image_eqI)
  moreover have "set (map (\<lambda>(k', ws). (k, vs @ ws)) (filter (\<lambda>r'. fst r' = k) (nrows r)))
      = {(k, vs @ ws) | ws. (k, ws) \<in> set (nrows r)}"
    by force
  ultimately show ?thesis using Cons by simp
qed

declare joined_rows.simps [simp del]

lemma merge_left_rows:
  "(k, us) \<in> set (nrows (merge_left l r)) \<longleftrightarrow>
     (\<exists>vs. (k, vs) \<in> set (nrows l) \<and>
        ((k \<notin> fst ` set (nrows r) \<and> us = vs @ replicate (length (ncols r)) (FloatV NaN))
         \<or> (\<exists>ws. (k, ws) \<in> set (nrows r) \<and> us = vs @ ws)))"
  (is "?L \<longleftrightarrow> ?R")
proof
  assume ?L
  then obtain x where x: "x \<in> set (nrows l)" "(k, us) \<in> set (joined_rows r x)"
    by (auto simp: nrows_merge_left)
  obtain k' vs where kv: "x = (k', vs)" by (cases x)
  from x(2) have "k' = k" by (auto simp: set_joined_rows kv split: if_splits)
  with x kv show ?R by (auto simp: set_joined_rows split: if_splits)
next
  assume ?R
  then obtain vs where vs: "(k, vs) \<in> set (nrows l)"
    and c: "(k \<notin> fst ` set (nrows r) \<and> us = vs @ replicate (length (ncols r)) (FloatV NaN))
         \<or> (\<exists>ws. (k, ws) \<in> set (nrows r) \<and> us = vs @ ws)" by blast
  from c have "(k, us) \<in> set (joined_rows r (k, vs))"
    by (force simp: set_joined_rows)
  with vs show ?L unfolding nrows_merge_left by force
qed

lemma merge_left_keys: "fst ` set (nrows (merge_left l r)) = fst ` set (nrows l)"
proof
  show "fst ` set (nrows (merge_left l r)) \<subseteq> fst ` set (nrows l)"
  proof
    fix k assume "k \<in> fst ` set (nrows (merge_left l r))"
    then obtain us where "(k, us) \<in> set (nrows (merge_left l r))" by auto
    then obtain vs where "(k, vs) \<in> set (nrows l)" unfolding merge_left_rows by blast
    then show "k \<in> fst ` set (nrows l)" by force
  qed
  show "fst ` set (nrows l) \<subseteq> fst ` set (nrows (merge_left l r))"
  proof
    fix k assume "k \<in> fst ` set (nrows l)"
    then obtain vs where vs: "(k, vs) \<in> set (nrows l)" by auto
    show "k \<in> fst ` set (nrows (merge_left l r))"
    proof (cases "k \<in> fst ` set (nrows r)")
      case True
      then obtain ws where "(k, ws) \<in> set (nrows r)" by auto
      with vs have "(k, vs @ ws) \<in> set (nrows (merge_left l r))"
        unfolding merge_left_rows by blast
      then show ?thesis by force
    next
      case False
      with vs have "(k, vs @ replicate (length (ncols r)) (FloatV NaN)) \<in> set (nrows (merge_left l r))"
        unfolding merge_left_rows by blast
      then show ?thesis by force
    qed
  qed
qed

lemma merge_left_aligned:
  assumes "aligned l" "aligned r"
  shows "aligned (merge_left l r)"
  unfolding aligned_def
proof
  fix x assume x: "x \<in> set (nrows (merge_left l r))"
  obtain k us where kv: "x = (k, us)" by (cases x)
  from x [unfolded kv merge_left_rows] assms
  show "length (snd x) = length (ncols (merge_left l r))"
    unfolding aligned_def kv by fastforce
qed

section \<open>Filling missing values\<close>

lemma ncols_fillna_col [simp]: "ncols (fillna_col c t) = ncols t"
  by (simp add: fillna_col_def)

lemma ncols_fillna_cols [simp]: "ncols (fillna_cols cs t) = ncols t"
  unfolding fillna_cols_def by (induction cs arbitrary: t) auto

lemma fill0_idem [simp]: "fill0 (fill0 v) = fill0 v"
  by (simp add: fill0_def isna_def)

lemma zip_refill:
  "length vs = length cols \<Longrightarrow>
   map (\<lambda>(l, v). if P l then fill0 v else v)
     (zip cols (map (\<lambda>(l, v). if l = c then fill0 v else v) (zip cols vs)))
   = map (\<lambda>(l, v). if l = c \<or> P l then fill0 v else v) (zip cols vs)"
  by (induction vs cols rule: list_induct2) auto

lemma zip_nofill:
  "length vs = length cols \<Longrightarrow> \<forall>l \<in> set cols. \<not> P l \<Longrightarrow>
   map (\<lambda>(l, v). if P l then fill0 v else v) (zip cols vs) = vs"
  by (induction vs cols rule: list_induct2) auto

lemma zip_allfill:
  "length vs = length cols \<Longrightarrow> \<forall>l \<in> set cols. P l \<Longrightarrow>
   map (\<lambda>(l, v). if P l then fill0 v else v) (zip cols vs) = map fill0 vs"
  by (induction vs cols rule: list_induct2) auto

lemma fillna_col_aligned: "aligned t \<Longrightarrow> aligned (fillna_col c t)"
  by (auto simp: aligned_def fillna_col_def)

lemma fillna_col_rows:
  assumes "aligned t"
  shows "nrows (fillna_col c t)
     = map (\<lambda>(k, vs). (k, map (\<lambda>(l, v). if l = c then fill0 v else v) (zip (ncols t) vs)))
         (nrows t)"
proof (cases "c \<in> set (ncols t)")
  case True
  then show ?thesis by (simp add: fillna_col_def)
next
  case False
  have "\<And>k vs. (k, vs) \<in> set (nrows t) \<Longrightarrow>
     map (\<lambda>(l, v). if l = c then fill0 v else v) (zip (ncols t) vs) = vs"
    using assms False by (intro zip_nofill) (auto simp: aligned_def)
  then have "map (\<lambda>(k, vs). (k, map (\<lambda>(l, v). if l = c then fill0 v else v) (zip (ncols t) vs)))
         (nrows t) = map (\<lambda>r. r) (nrows t)"
    by (intro map_cong) auto
  with False show ?thesis by (simp add: fillna_col_def)
qed

lemma fillna_cols_rows:
  "aligned t \<Longrightarrow>
   nrows (fillna_cols cs t)
     = map (\<lambda>(k, vs). (k, map (\<lambda>(l, v). if l \<in> set cs then fill0 v else v) (zip (ncols t) vs)))
         (nrows t)"
proof (induction cs arbitrary: t)
  case Nil
  have "\<And>k vs. (k, vs) \<in> set (nrows t) \<Longrightarrow>
     map (\<lambda>(l, v). if l \<in> set [] then fill0 v else v) (zip (ncols t) vs) = vs"
    using Nil by (intro zip_nofill) (auto simp: aligned_def)
  then have "map (\<lambda>(k, vs). (k, map (\<lambda>(l, v). if l \<in> set [] then fill0 v else v)
       (zip (ncols t) vs))) (nrows t) = map (\<lambda>r. r) (nrows t)"
    by (intro map_cong) auto
  then show ?case by (simp add: fillna_cols_def)
next
  case (Cons c cs)
  have al: "aligned (fillna_col c t)" using Cons.prems by (rule fillna_col_aligned)
  have "nrows (fillna_cols (c # cs) t) = nrows (fillna_cols cs (fillna_col c t))"
    by (simp add: fillna_cols_def)
  also have "\<dots> = map (\<lambda>(k, vs). (k, map (\<lambda>(l, v). if l \<in> set cs then fill0 v else v)
                              (zip (ncols t) vs))) (nrows (fillna_col c t))"
    using Cons.IH [OF al] by simp
  also have "\<dots> = map (\<lambda>(k, vs). (k, map (\<lambda>(l, v). if l \<in> set (c # cs) then fill0 v else v)
                              (zip (ncols t) vs))) (nrows t)"
    unfolding fillna_col_rows [OF Cons.prems] map_map
  proof (intro map_cong refl)
    fix r assume r: "r \<in> set (nrows t)"
    obtain k vs where kv: "r = (k, vs)" by (cases r)
    from r Cons.prems have len: "length vs = length (ncols t)" by (auto simp: aligned_def kv)
    show "((\<lambda>(k, vs). (k, map (\<lambda>(l, v). if l \<in> set cs then fill0 v else v) (zip (ncols t) vs)))
          \<circ> (\<lambda>(k, vs). (k, map (\<lambda>(l, v). if l = c then fill0 v else v) (zip (ncols t) vs)))) r
        = (case r of (k, vs) \<Rightarrow> (k, map (\<lambda>(l, v). if l \<in> set (c # cs) then fill0 v else v)
                              (zip (ncols t) vs)))"
      using zip_refill [OF len, of "\<lambda>l. l \<in> set cs" c] by (simp add: kv)
  qed
  finally show ?case .
qed

lemma cell_at_append:
  assumes "length vs = length cols" "c \<notin> set cols"
  shows "cell_at (cols @ ds) (vs @ ws) c = cell_at ds ws c"
proof -
  have n: "map_of (zip cols vs) c = None"
    using assms by (simp add: map_of_zip_is_None)
  have "map_of (zip (cols @ ds) (vs @ ws)) c = map_of (zip ds ws) c"
    using assms(1) by (simp add: map_add_def n)
  then show ?thesis by (simp add: cell_at_def)
qed

lemma short_labels_not_price: "c \<in> set short_labels \<Longrightarrow> c \<notin> set price_labels"
  by (auto simp: short_labels_def price_labels_def col_gongmaedo_def col_bijung_def
      col_gongmaedo_bijung_def col_gongmaedo_jango_def col_gongmaedo_jango_bijung_def
      col_siga_def col_goga_def col_jeoga_def col_jongga_def col_georaeryang_def
      col_deungnakryul_def)

lemma cell_at_short:
  "cell_at short_labels [a, b, c, d] col_gongmaedo = a"
  "cell_at short_labels [a, b, c, d] col_gongmaedo_bijung = b"
  "cell_at short_labels [a, b, c, d] col_gongmaedo_jango = c"
  "cell_at short_labels [a, b, c, d] col_gongmaedo_jango_bijung = d"
  by (simp_all add: cell_at_def short_labels_def col_gongmaedo_def col_bijung_def
      col_gongmaedo_bijung_def col_gongmaedo_jango_def col_gongmaedo_jango_bijung_def)

section \<open>The shape of the normalised tables\<close>

lemma short_table_shape:
  assumes "short_table lib q qo ro res = Inr t"
  shows "ncols t = [qo, ro] \<and> (\<forall>r \<in> set (nrows t). fst r \<noteq> None \<and> length (snd r) = 2)"
proof (cases "\<exists>f. res = Some f \<and> \<not> frame_empty f")
  case True
  then obtain f where f: "res = Some f" "\<not> frame_empty f" by blast
  with assms have "normalize_short lib q qo ro f = Inr t" by (simp add: short_table_def)
  then show ?thesis
    unfolding normalize_short_def
    by (auto simp: bindE_Inr_iff Let_def split: prod.splits)
next
  case False
  with assms have "t = \<lparr>ncols = [qo, ro], nrows = []\<rparr>"
    by (auto simp: short_table_def split: option.splits if_splits)
  then show ?thesis by simp
qed

lemma short_table_aligned: "short_table lib q qo ro res = Inr t \<Longrightarrow> aligned t"
  using short_table_shape [of lib q qo ro res t] by (simp add: aligned_def)

lemma columns_set_column [simp]: "columns (set_column f c vs) = columns f"
  by (simp add: set_column_def)

lemma length_rows_set_column:
  "length vs = length (rows f) \<Longrightarrow> length (rows (set_column f c vs)) = length (rows f)"
  by (simp add: set_column_def)

lemma length_column [simp]: "length (column f c) = length (rows f)"
  by (simp add: column_def)

lemma normalize_numeric_shape:
  "normalize_numeric lib f cs = Inr f' \<Longrightarrow>
     columns f' = columns f \<and> length (rows f') = length (rows f)"
proof (induction cs arbitrary: f)
  case Nil
  then show ?case by simp
next
  case (Cons c cs)
  show ?case
  proof (cases "c \<in> set (columns f)")
    case False
    with Cons show ?thesis by simp
  next
    case True
    with Cons.prems obtain xs ys where
      xs: "series f c = Inr xs" and ys: "map_err (to_num lib) xs = Inr ys"
      and rest: "normalize_numeric lib (set_column f c (map FloatV ys)) cs = Inr f'"
      by (auto simp: bindE_Inr_iff)
    from xs have "xs = column f c" by (auto simp: series_def split: if_splits)
    with ys have "length (map FloatV ys) = length (rows f)"
      by (simp add: map_err_length)
    with Cons.IH [OF rest] show ?thesis
      by (simp add: length_rows_set_column)
  qed
qed

lemma normalize_ohlcv_Inr:
  assumes "normalize_ohlcv lib f0 = Inr t"
  obtains f2 dcol stamps f3 where
    "prepare_ohlcv f0 = Inr (f2, dcol)"
    "to_datetime lib dcol = Inr stamps"
    "normalize_numeric lib f2 numeric_labels = Inr f3"
    "t = \<lparr>ncols = filter (\<lambda>c. c \<in> set (columns f2)) price_labels,
          nrows = sort_values True (drop_duplicates
            (map (\<lambda>(d, r). (map_option strftime_dash d,
                     map (cell_at (columns f3) r) (filter (\<lambda>c. c \<in> set (columns f2)) price_labels)))
               (zip stamps (rows f3))))\<rparr>"
proof -
  from assms obtain f2 dcol stamps f3 where
    a: "prepare_ohlcv f0 = Inr (f2, dcol)" "to_datetime lib dcol = Inr stamps"
       "normalize_numeric lib f2 numeric_labels = Inr f3"
    and t: "t = \<lparr>ncols = filter (\<lambda>c. c \<in> set (columns f3)) price_labels,
          nrows = sort_values True (drop_duplicates
            (map (\<lambda>(d, r). (map_option strftime_dash d,
                     map (cell_at (columns f3) r) (filter (\<lambda>c. c \<in> set (columns f3)) price_labels)))
               (zip stamps (rows f3))))\<rparr>"
    unfolding normalize_ohlcv_def by (auto simp: bindE_Inr_iff Let_def)
  from normalize_numeric_shape [OF a(3)] have "columns f3 = columns f2" by simp
  with a t that show thesis by simp
qed

lemma distinct_map_sort_key: "distinct (map f (sort_key f xs)) = distinct (map f xs)"
  by (induct xs) (auto simp: distinct_insort_key)

lemma map_fst_dated: "map (\<lambda>x. Some (fst x)) (dated rs) = filter (\<lambda>k. k \<noteq> None) (map fst rs)"
  by (induction rs) (auto simp: dated_def split: option.splits)

lemma distinct_dated: "distinct (map fst rs) \<Longrightarrow> distinct (map fst (dated rs))"
proof -
  assume d: "distinct (map fst rs)"
  have "map Some (map fst (dated rs)) = filter (\<lambda>k. k \<noteq> None) (map fst rs)"
    using map_fst_dated [of rs] by (simp add: comp_def)
  with d have "distinct (map Some (map fst (dated rs)))" by simp
  then show ?thesis unfolding distinct_map [of Some] by blast
qed

lemma map_fst_sort_values:
  "map fst (sort_values a rs) =
     map Some (if a then map fst (sort_key fst (dated rs))
               else rev (map fst (sort_key fst (rev (dated rs)))))
     @ map fst (filter (\<lambda>r. fst r = None) rs)"
  by (simp add: sort_values_def Let_def rev_map case_prod_beta comp_def)

lemma distinct_sort_values:
  assumes "distinct (map fst rs)"
  shows "distinct (map fst (sort_values a rs))"
proof -
  have 1: "distinct (map fst (sort_key fst (dated rs)))"
    using distinct_dated [OF assms] by (simp add: distinct_map_sort_key)
  have r1: "distinct (map fst (sort_key fst (rev (dated rs))))"
    using distinct_dated [OF assms] by (simp add: distinct_map_sort_key rev_map [symmetric])
  have 2: "distinct (map fst (filter (\<lambda>r. fst r = None) rs))"
    using assms by (rule distinct_map_filter)
  have 3: "set (map fst (filter (\<lambda>r. fst r = None) rs)) \<subseteq> {None}" by auto
  show ?thesis
    unfolding map_fst_sort_values using 1 r1 2 3
    by (auto simp: distinct_map)
qed

lemma normalize_ohlcv_shape:
  assumes "normalize_ohlcv lib f0 = Inr t"
  shows "aligned t" and "set (ncols t) \<subseteq> set price_labels" and "distinct (map fst (nrows t))"
proof -
  from assms obtain f2 dcol stamps f3 where
    "prepare_ohlcv f0 = Inr (f2, dcol)"
    "to_datetime lib dcol = Inr stamps"
    "normalize_numeric lib f2 numeric_labels = Inr f3"
    and t: "t = \<lparr>ncols = filter (\<lambda>c. c \<in> set (columns f2)) price_labels,
          nrows = sort_values True (drop_duplicates
            (map (\<lambda>(d, r). (map_option strftime_dash d,
                     map (cell_at (columns f3) r) (filter (\<lambda>c. c \<in> set (columns f2)) price_labels)))
               (zip stamps (rows f3))))\<rparr>"
    by (rule normalize_ohlcv_Inr)
  show "aligned t"
    unfolding aligned_def t using drop_duplicates_subset
    by (fastforce simp: set_sort_values)
  show "set (ncols t) \<subseteq> set price_labels" by (auto simp: t)
  show "distinct (map fst (nrows t))"
    unfolding t by (simp add: distinct_sort_values drop_duplicates_distinct)
qed

section \<open>The rows of the assembled table\<close>

lemma ncols_assemble: "ncols (assemble ohlcv sv sb) = ncols ohlcv @ ncols sv @ ncols sb"
  by (simp add: assemble_def Let_def)

lemma nrows_assemble:
  "set (nrows (assemble ohlcv sv sb))
     = set (nrows (fillna_cols short_labels (merge_left (merge_left ohlcv sv) sb)))"
  by (simp add: assemble_def Let_def set_sort_values)

lemma short_ncols_labels:
  "[col_gongmaedo, col_gongmaedo_bijung] @ [col_gongmaedo_jango, col_gongmaedo_jango_bijung]
     = short_labels"
  by (simp add: short_labels_def)

lemma assemble_rows:
  assumes al: "aligned ohlcv" and pl: "set (ncols ohlcv) \<subseteq> set price_labels"
    and sv: "ncols sv = [col_gongmaedo, col_gongmaedo_bijung]"
            "\<forall>r \<in> set (nrows sv). length (snd r) = 2"
    and sb: "ncols sb = [col_gongmaedo_jango, col_gongmaedo_jango_bijung]"
            "\<forall>r \<in> set (nrows sb). length (snd r) = 2"
    and row: "(k, us) \<in> set (nrows (assemble ohlcv sv sb))"
  obtains vs a b where
    "(k, vs) \<in> set (nrows ohlcv)" "length vs = length (ncols ohlcv)"
    "(k \<notin> fst ` set (nrows sv) \<and> a = [FloatV NaN, FloatV NaN]) \<or> (k, a) \<in> set (nrows sv)"
    "(k \<notin> fst ` set (nrows sb) \<and> b = [FloatV NaN, FloatV NaN]) \<or> (k, b) \<in> set (nrows sb)"
    "length a = 2" "length b = 2"
    "us = vs @ map fill0 (a @ b)"
proof -
  let ?M = "merge_left (merge_left ohlcv sv) sb"
  have asv: "aligned sv" and asb: "aligned sb"
    using sv sb by (auto simp: aligned_def)
  have aM: "aligned ?M"
    by (intro merge_left_aligned al asv asb)
  from row obtain us0 where us0: "(k, us0) \<in> set (nrows ?M)"
    and us: "us = map (\<lambda>(l, v). if l \<in> set short_labels then fill0 v else v) (zip (ncols ?M) us0)"
    unfolding nrows_assemble fillna_cols_rows [OF aM] by auto
  from us0 obtain ws b where ws: "(k, ws) \<in> set (nrows (merge_left ohlcv sv))"
    and b: "(k \<notin> fst ` set (nrows sb) \<and> b = replicate (length (ncols sb)) (FloatV NaN))
             \<or> (k, b) \<in> set (nrows sb)"
    and us0_eq: "us0 = ws @ b"
    unfolding merge_left_rows [of k us0] by blast
  from ws obtain vs a where vs: "(k, vs) \<in> set (nrows ohlcv)"
    and a: "(k \<notin> fst ` set (nrows sv) \<and> a = replicate (length (ncols sv)) (FloatV NaN))
             \<or> (k, a) \<in> set (nrows sv)"
    and ws_eq: "ws = vs @ a"
    unfolding merge_left_rows [of k ws] by blast
  have lvs: "length vs = length (ncols ohlcv)" using al vs by (auto simp: aligned_def)
  have la: "length a = 2" using a sv by auto
  have lb: "length b = 2" using b sb by auto
  have a': "(k \<notin> fst ` set (nrows sv) \<and> a = [FloatV NaN, FloatV NaN]) \<or> (k, a) \<in> set (nrows sv)"
    using a sv(1) by (auto simp: numeral_2_eq_2)
  have b': "(k \<notin> fst ` set (nrows sb) \<and> b = [FloatV NaN, FloatV NaN]) \<or> (k, b) \<in> set (nrows sb)"
    using b sb(1) by (auto simp: numeral_2_eq_2)
  have cols: "ncols ?M = ncols ohlcv @ short_labels"
    by (simp add: sv sb short_labels_def)
  have lab: "length (a @ b) = length short_labels"
    using la lb by (simp add: short_labels_def)
  have "us = map (\<lambda>(l, v). if l \<in> set short_labels then fill0 v else v) (zip (ncols ohlcv) vs)
           @ map (\<lambda>(l, v). if l \<in> set short_labels then fill0 v else v) (zip short_labels (a @ b))"
    unfolding us cols us0_eq ws_eq using lvs by simp
  also have "map (\<lambda>(l, v). if l \<in> set short_labels then fill0 v else v) (zip (ncols ohlcv) vs) = vs"
    using lvs pl short_labels_not_price by (intro zip_nofill) auto
  also have "map (\<lambda>(l, v). if l \<in> set short_labels then fill0 v else v) (zip short_labels (a @ b))
           = map fill0 (a @ b)"
    using lab by (intro zip_allfill) auto
  finally have "us = vs @ map fill0 (a @ b)" .
  with vs lvs a' b' la lb show thesis by (rule that)
qed

section \<open>The dates of the assembled table\<close>

lemma map_fst_fillna_col: "map fst (nrows (fillna_col c t)) = map fst (nrows t)"
  by (simp add: fillna_col_def case_prod_beta comp_def)

lemma map_fst_fillna_cols: "map fst (nrows (fillna_cols cs t)) = map fst (nrows t)"
  unfolding fillna_cols_def by (induction cs arbitrary: t) (simp_all add: map_fst_fillna_col)

lemma assemble_dates: "fst ` set (nrows (assemble ohlcv sv sb)) = fst ` set (nrows ohlcv)"
proof -
  have "fst ` set (nrows (assemble ohlcv sv sb))
      = set (map fst (nrows (fillna_cols short_labels (merge_left (merge_left ohlcv sv) sb))))"
    by (simp add: nrows_assemble)
  also have "\<dots> = fst ` set (nrows (merge_left (merge_left ohlcv sv) sb))"
    by (simp add: map_fst_fillna_cols)
  finally show ?thesis by (simp add: merge_left_keys)
qed

lemma filter_key_unique:
  "distinct (map fst xs) \<Longrightarrow>
   filter (\<lambda>r. fst r = k) xs = [] \<or> (\<exists>m. filter (\<lambda>r. fst r = k) xs = [m])"
proof (induction xs)
  case Nil
  then show ?case by simp
next
  case (Cons x xs)
  show ?case
  proof (cases "fst x = k")
    case True
    with Cons.prems have "k \<notin> fst ` set xs" by auto
    then have "filter (\<lambda>r. fst r = k) xs = []"
      by (auto simp: filter_empty_conv)
    with True show ?thesis by simp
  next
    case False
    with Cons show ?thesis by simp
  qed
qed

lemma joined_rows_unique:
  assumes "distinct (map fst (nrows r))"
  shows "map fst (joined_rows r x) = [fst x]"
proof -
  obtain k vs where x: "x = (k, vs)" by (cases x)
  from filter_key_unique [OF assms, of k] show ?thesis
    by (auto simp: x joined_rows.simps case_prod_beta)
qed

lemma merge_left_unique:
  assumes "distinct (map fst (nrows r))"
  shows "map fst (nrows (merge_left l r)) = map fst (nrows l)"
proof -
  have "map fst (concat (map (joined_rows r) xs)) = map fst xs" for xs
    by (induction xs) (simp_all add: joined_rows_unique [OF assms])
  then show ?thesis by (simp add: nrows_merge_left)
qed

lemma undated_keys:
  "map fst (filter (\<lambda>r. fst r = None) rs) = replicate (length (filter (\<lambda>r. fst r = None) rs)) None"
  by (induction rs) auto

lemma sort_values_descending:
  assumes "distinct (map fst rs)"
  shows "\<exists>ks n. map fst (sort_values False rs) = map Some ks @ replicate n None
           \<and> sorted_wrt (\<lambda>x y. x > y) ks"
proof -
  let ?ks = "map fst (sort_key fst (rev (dated rs)))"
  have "sorted ?ks" by simp
  moreover have "distinct ?ks"
    using distinct_dated [OF assms] by (simp add: distinct_map_sort_key rev_map [symmetric])
  ultimately have "sorted_wrt (<) ?ks" by (simp add: strict_sorted_iff)
  then have "sorted_wrt (\<lambda>x y. x > y) (rev ?ks)" by (simp add: sorted_wrt_rev)
  moreover have "map fst (sort_values False rs)
      = map Some (rev ?ks) @ replicate (length (filter (\<lambda>r. fst r = None) rs)) None"
    using undated_keys [of rs] by (simp add: map_fst_sort_values)
  ultimately show ?thesis by blast
qed

lemma assemble_unique_dates:
  assumes "distinct (map fst (nrows ohlcv))"
    and "distinct (map fst (nrows sv))" "distinct (map fst (nrows sb))"
  shows "length (nrows (assemble ohlcv sv sb)) = card (fst ` set (nrows ohlcv))"
    and "distinct (map fst (nrows (assemble ohlcv sv sb)))"
    and "\<exists>ks n. map fst (nrows (assemble ohlcv sv sb)) = map Some ks @ replicate n None
           \<and> sorted_wrt (\<lambda>x y. x > y) ks"
proof -
  let ?rs = "nrows (fillna_cols short_labels (merge_left (merge_left ohlcv sv) sb))"
  have k: "map fst ?rs = map fst (nrows ohlcv)"
    by (simp add: map_fst_fillna_cols merge_left_unique assms)
  have n: "nrows (assemble ohlcv sv sb) = sort_values False ?rs"
    by (simp add: assemble_def Let_def)
  have d: "distinct (map fst ?rs)" using assms(1) k by simp
  have "length ?rs = length (nrows ohlcv)"
    using k by (metis length_map)
  moreover have "card (fst ` set (nrows ohlcv)) = length (nrows ohlcv)"
    using distinct_card [OF assms(1)] by simp
  ultimately show "length (nrows (assemble ohlcv sv sb)) = card (fst ` set (nrows ohlcv))"
    by (simp add: n length_sort_values)
  show "distinct (map fst (nrows (assemble ohlcv sv sb)))"
    unfolding n using d by (rule distinct_sort_values)
  show "\<exists>ks n. map fst (nrows (assemble ohlcv sv sb)) = map Some ks @ replicate n None
           \<and> sorted_wrt (\<lambda>x y. x > y) ks"
    unfolding n using d by (rule sort_values_descending)
qed

section \<open>The dates of the normalised tables\<close>

lemma select_short_lengths:
  assumes "select_short qty f = Inr (ds, qs, ps)"
  shows "length qs = length ds" "length ps = length ds"
proof -
  from assms obtain f1 where "reset_named_index f = Inr f1"
    and r: "(case columns (f1\<lparr>columns := map strip (columns f1)\<rparr>) of
        [] \<Rightarrow> Inl IndexError
      | c0 # _ \<Rightarrow>
          let date_col = (if col_nalja \<in> set (columns (f1\<lparr>columns := map strip (columns f1)\<rparr>)) then col_nalja else c0);
              wanted = [date_col, qty, col_bijung]
          in if \<exists>c \<in> set wanted. c \<notin> set (columns (f1\<lparr>columns := map strip (columns f1)\<rparr>)) then Inl KeyError
             else if sum_list (map (count_list (columns (f1\<lparr>columns := map strip (columns f1)\<rparr>))) wanted) \<noteq> 3 then Inl ValueError
             else Inr (column (f1\<lparr>columns := map strip (columns f1)\<rparr>) date_col, column (f1\<lparr>columns := map strip (columns f1)\<rparr>) qty, column (f1\<lparr>columns := map strip (columns f1)\<rparr>) col_bijung)) = Inr (ds, qs, ps)"
    unfolding select_short_def by (auto simp: bindE_Inr_iff Let_def)
  from r have "\<exists>c1 c2 c3. ds = column (f1\<lparr>columns := map strip (columns f1)\<rparr>) c1
      \<and> qs = column (f1\<lparr>columns := map strip (columns f1)\<rparr>) c2
      \<and> ps = column (f1\<lparr>columns := map strip (columns f1)\<rparr>) c3"
    by (auto simp: Let_def split: list.splits if_splits)
  then show "length qs = length ds" "length ps = length ds" by auto
qed

lemma map_fst_filter_key: "map fst (filter (\<lambda>r. P (fst r)) rs) = filter P (map fst rs)"
  by (induction rs) auto

lemma normalize_short_Inr:
  assumes "normalize_short lib qty qo ro f = Inr t"
  obtains ds qs ps stamps xs ys where
    "select_short qty f = Inr (ds, qs, ps)" "to_datetime lib ds = Inr stamps"
    "map_err (to_num lib) qs = Inr xs" "map_err (to_num lib) ps = Inr ys"
    "t = \<lparr>ncols = [qo, ro],
          nrows = filter (\<lambda>r. fst r \<noteq> None)
            (map (\<lambda>(d, x, y). (map_option strftime_dash d, [FloatV x, FloatV y]))
               (zip stamps (zip xs ys)))\<rparr>"
  using assms unfolding normalize_short_def
  by (auto simp: bindE_Inr_iff Let_def)

lemma normalize_short_dates:
  assumes "normalize_short lib qty qo ro f = Inr t"
  obtains ds qs ps stamps where
    "select_short qty f = Inr (ds, qs, ps)" "to_datetime lib ds = Inr stamps"
    "length stamps = length ds \<Longrightarrow>
       map fst (nrows t) = filter (\<lambda>k. k \<noteq> None) (map (map_option strftime_dash) stamps)"
proof -
  from assms obtain ds qs ps stamps xs ys where
    a: "select_short qty f = Inr (ds, qs, ps)" "to_datetime lib ds = Inr stamps"
    and x: "map_err (to_num lib) qs = Inr xs" and y: "map_err (to_num lib) ps = Inr ys"
    and t: "t = \<lparr>ncols = [qo, ro],
          nrows = filter (\<lambda>r. fst r \<noteq> None)
            (map (\<lambda>(d, x, y). (map_option strftime_dash d, [FloatV x, FloatV y]))
               (zip stamps (zip xs ys)))\<rparr>"
    by (rule normalize_short_Inr)
  have l: "length xs = length ds" "length ys = length ds"
    using select_short_lengths [OF a(1)] map_err_length [OF x] map_err_length [OF y] by simp_all
  let ?rs = "map (\<lambda>(d, x, y). (map_option strftime_dash d, [FloatV x, FloatV y]))
               (zip stamps (zip xs ys))"
  have "map fst (nrows t) = filter (\<lambda>k. k \<noteq> None) (map (map_option strftime_dash) stamps)"
    if "length stamps = length ds"
  proof -
    have "map fst ?rs = map (map_option strftime_dash) (map fst (zip stamps (zip xs ys)))"
      by (simp add: case_prod_beta comp_def)
    also have "map fst (zip stamps (zip xs ys)) = stamps"
      using that l by (simp add: map_fst_zip)
    finally have mf: "map fst ?rs = map (map_option strftime_dash) stamps" .
    have "map fst (nrows t) = filter (\<lambda>k. k \<noteq> None) (map fst ?rs)"
      unfolding t using map_fst_filter_key [of "\<lambda>k. k \<noteq> None" ?rs] by simp
    then show ?thesis unfolding mf .
  qed
  with a show thesis by (rule that)
qed

lemma normalize_short_raises:
  "select_short qty f = Inr (ds, qs, ps) \<Longrightarrow> to_datetime lib ds = Inl err \<Longrightarrow>
   normalize_short lib qty qo ro f = Inl err"
  by (simp add: normalize_short_def)

lemma normalize_ohlcv_raises:
  "prepare_ohlcv g = Inr (f2, dcol) \<Longrightarrow> to_datetime lib dcol = Inl err \<Longrightarrow>
   normalize_ohlcv lib g = Inl err"
  by (simp add: normalize_ohlcv_def)

lemma prepare_ohlcv_length: "prepare_ohlcv g = Inr (f2, dcol) \<Longrightarrow> length dcol = length (rows f2)"
  unfolding prepare_ohlcv_def
  by (auto simp: bindE_Inr_iff Let_def series_def split: if_splits)

lemma normalize_ohlcv_dates:
  assumes "normalize_ohlcv lib g = Inr p"
  obtains f2 dcol stamps where
    "prepare_ohlcv g = Inr (f2, dcol)" "to_datetime lib dcol = Inr stamps"
    "length stamps = length dcol \<Longrightarrow> fst ` set (nrows p) = map_option strftime_dash ` set stamps"
    "fst ` set (nrows p) \<subseteq> map_option strftime_dash ` set stamps"
proof -
  from assms obtain f2 dcol stamps f3 where
    a: "prepare_ohlcv g = Inr (f2, dcol)" "to_datetime lib dcol = Inr stamps"
    and n: "normalize_numeric lib f2 numeric_labels = Inr f3"
    and t: "p = \<lparr>ncols = filter (\<lambda>c. c \<in> set (columns f2)) price_labels,
          nrows = sort_values True (drop_duplicates
            (map (\<lambda>(d, r). (map_option strftime_dash d,
                     map (cell_at (columns f3) r) (filter (\<lambda>c. c \<in> set (columns f2)) price_labels)))
               (zip stamps (rows f3))))\<rparr>"
    by (rule normalize_ohlcv_Inr)
  let ?rs = "map (\<lambda>(d, r). (map_option strftime_dash d,
                     map (cell_at (columns f3) r) (filter (\<lambda>c. c \<in> set (columns f2)) price_labels)))
               (zip stamps (rows f3))"
  have k: "fst ` set (nrows p) = set (map fst ?rs)"
    unfolding t by (simp add: set_sort_values drop_duplicates_keys image_image)
  have m: "map fst ?rs = map (map_option strftime_dash) (map fst (zip stamps (rows f3)))"
    by (simp add: case_prod_beta comp_def)
  have l: "length (rows f3) = length dcol"
    using normalize_numeric_shape [OF n] prepare_ohlcv_length [OF a(1)] by simp
  have 1: "fst ` set (nrows p) = map_option strftime_dash ` set stamps"
    if "length stamps = length dcol"
    using that l unfolding k m by (simp add: map_fst_zip)
  have "set (map fst (zip stamps (rows f3))) \<subseteq> set stamps"
    by (auto dest: set_zip_leftD)
  then have 2: "fst ` set (nrows p) \<subseteq> map_option strftime_dash ` set stamps"
    unfolding k m by auto
  from a 1 2 show thesis by (rule that)
qed

section \<open>The stages of the pipeline\<close>

lemma build_stages:
  assumes "yyyymmdd_range lib today (lookback_days cfg) = Inr (s, e)"
    and "price_table lib prov cfg s e = Inr ohlcv"
    and "volume_table lib prov cfg s e = Inr sv"
    and "balance_table lib prov cfg s e = Inr sb"
  shows "build lib prov cfg today = Inr (assemble ohlcv sv sb)"
  using assms by (simp add: build_def)

lemma build_Inr:
  assumes "build lib prov cfg today = Inr out"
  obtains s e ohlcv sv sb where
    "yyyymmdd_range lib today (lookback_days cfg) = Inr (s, e)"
    "price_table lib prov cfg s e = Inr ohlcv"
    "volume_table lib prov cfg s e = Inr sv"
    "balance_table lib prov cfg s e = Inr sb"
    "out = assemble ohlcv sv sb"
  using assms unfolding build_def by (auto simp: bindE_Inr_iff)

lemma price_table_Inr:
  assumes "price_table lib prov cfg s e = Inr t"
  obtains f where "get_market_ohlcv prov s e (ticker cfg) = Inr (Some f)"
    "normalize_ohlcv lib f = Inr t"
  using assms unfolding price_table_def by (auto simp: bindE_Inr_iff split: option.splits)

lemma volume_table_Inr:
  assumes "volume_table lib prov cfg s e = Inr t"
  obtains r where "get_shorting_volume_by_date prov s e (ticker cfg) = Inr r"
    "short_table lib col_gongmaedo col_gongmaedo col_gongmaedo_bijung r = Inr t"
  using assms unfolding volume_table_def by (auto simp: bindE_Inr_iff)

lemma balance_table_Inr:
  assumes "balance_table lib prov cfg s e = Inr t"
  obtains r where "get_shorting_balance_by_date prov s e (ticker cfg) = Inr r"
    "short_table lib col_gongmaedo_jango col_gongmaedo_jango col_gongmaedo_jango_bijung r = Inr t"
  using assms unfolding balance_table_def by (auto simp: bindE_Inr_iff)

lemma short_table_absent:
  "r = None \<or> (\<exists>f. r = Some f \<and> frame_empty f) \<Longrightarrow>
   short_table lib q qo ro r = Inr \<lparr>ncols = [qo, ro], nrows = []\<rparr>"
  by (auto simp: short_table_def)

lemma cell_at_assembled:
  assumes "length vs = length cols" "set cols \<subseteq> set price_labels"
  shows "cell_at (cols @ short_labels) (vs @ [a, b, c, d]) col_gongmaedo = a"
    "cell_at (cols @ short_labels) (vs @ [a, b, c, d]) col_gongmaedo_bijung = b"
    "cell_at (cols @ short_labels) (vs @ [a, b, c, d]) col_gongmaedo_jango = c"
    "cell_at (cols @ short_labels) (vs @ [a, b, c, d]) col_gongmaedo_jango_bijung = d"
proof -
  have "\<And>l. l \<in> set short_labels \<Longrightarrow> l \<notin> set cols"
    using assms(2) short_labels_not_price by blast
  then have n: "col_gongmaedo \<notin> set cols" "col_gongmaedo_bijung \<notin> set cols"
    "col_gongmaedo_jango \<notin> set cols" "col_gongmaedo_jango_bijung \<notin> set cols"
    by (simp_all add: short_labels_def)
  show "cell_at (cols @ short_labels) (vs @ [a, b, c, d]) col_gongmaedo = a"
    "cell_at (cols @ short_labels) (vs @ [a, b, c, d]) col_gongmaedo_bijung = b"
    "cell_at (cols @ short_labels) (vs @ [a, b, c, d]) col_gongmaedo_jango = c"
    "cell_at (cols @ short_labels) (vs @ [a, b, c, d]) col_gongmaedo_jango_bijung = d"
    using assms(1) n by (simp_all add: cell_at_append cell_at_short)
qed

lemma fill0_not_na [simp]: "\<not> isna (fill0 v)"
  by (simp add: fill0_def isna_def)

lemma fill0_nan [simp]: "fill0 (FloatV NaN) = IntV 0"
  by (simp add: fill0_def isna_def)

lemma ball_short_labels:
  "(\<forall>c \<in> set short_labels. P c) \<longleftrightarrow>
     P col_gongmaedo \<and> P col_gongmaedo_bijung \<and> P col_gongmaedo_jango
     \<and> P col_gongmaedo_jango_bijung"
  by (simp add: short_labels_def)

section \<open>The steps of main and of the script\<close>


lemma main_makedirs_fails:
  "makedirs lib (output_dir cfg) w = (Inl e, w1) \<Longrightarrow> main lib prov cfg today w = (Inl e, w1)"
  by (simp add: main_def)





lemma build_volume_fetch_fails:
  "yyyymmdd_range lib today (lookback_days cfg) = Inr (s, e) \<Longrightarrow>
   price_table lib prov cfg s e = Inr ohlcv \<Longrightarrow>
   get_shorting_volume_by_date prov s e (ticker cfg) = Inl err \<Longrightarrow>
   build lib prov cfg today = Inl err"
  by (simp add: build_def volume_table_def)


lemma script_main:
  "load_config lib env = Inr cfg \<Longrightarrow> main lib prov cfg today w = (r, w') \<Longrightarrow>
   script lib prov env today w =
     (case r of Inr u \<Rightarrow> (0, w')
      | Inl e \<Rightarrow>
          if is_exception e
          then (1, w'\<lparr>stderr := stderr w' @ [asc ''[ERROR] '' @ exc_text lib e]\<rparr>)
          else uncaught lib e w')"
  by (simp add: script_def split: sum.splits)

lemma print_out_files: "files (snd (print_out lib line w)) = files w"
  by (simp add: print_out_def split: option.splits)

lemma print_out_cases:
  obtains e where "print_out lib line w = (Inl e, w)"
  | "print_out lib line w = (Inr (), w\<lparr>stdout := stdout w @ [line]\<rparr>)"
  by (cases "stdout_error lib line") (auto simp: print_out_def)





section \<open>The numeric normalizer: properties\<close>

lemma strip_commas_1234: "strip (remove_commas (asc ''1,234'')) = asc ''1234''"
  by (simp add: strip_def remove_commas_def asc_def is_space_def)

lemma strip_commas_dash: "strip (remove_commas (asc ''-'')) = asc ''-''"
  by (simp add: strip_def remove_commas_def asc_def is_space_def)

lemma sample_float_1234: "float_of_str sample_lib (asc ''1234'') = Some (Finite 1234)"
  by (simp add: sample_lib_def py_int_def int_char_def asc_def is_ascii_space_def is_digit_def)

lemma sample_float_dash: "float_of_str sample_lib (asc ''-'') = None"
  by (simp add: sample_lib_def py_int_def int_char_def asc_def is_ascii_space_def is_digit_def)

lemma dropWhile_all: "list_all P xs \<Longrightarrow> dropWhile P (xs @ ys) = dropWhile P ys"
  by (induction xs) auto

lemma dropWhile_hd: "xs \<noteq> [] \<Longrightarrow> \<not> P (hd xs) \<Longrightarrow> dropWhile P (xs @ ys) = xs @ ys"
  by (cases xs) auto

lemma strip_surrounded:
  assumes "list_all is_space ws1" and "list_all is_space ws2"
    and "core = [] \<or> (\<not> is_space (hd core) \<and> \<not> is_space (last core))"
  shows "strip (ws1 @ core @ ws2) = core"
proof -
  have 1: "dropWhile is_space (ws1 @ core @ ws2) = dropWhile is_space (core @ ws2)"
    using assms(1) by (rule dropWhile_all)
  show ?thesis
  proof (cases "core = []")
    case True
    have e: "dropWhile is_space ([] @ ws2) = []"
      using assms(2) by (induction ws2) auto
    show ?thesis unfolding strip_def 1 unfolding True e by simp
  next
    case False
    with assms(3) have h: "\<not> is_space (hd core)" and l: "\<not> is_space (last core)" by auto
    from False h have 2: "dropWhile is_space (core @ ws2) = core @ ws2"
      by (rule dropWhile_hd)
    have "list_all is_space (rev ws2)" using assms(2) by (simp add: list_all_iff)
    then have 3: "dropWhile is_space (rev ws2 @ rev core) = dropWhile is_space (rev core)"
      by (rule dropWhile_all)
    have "dropWhile is_space (rev core @ []) = rev core @ []"
      using False l by (intro dropWhile_hd) (simp_all add: hd_rev)
    then have 4: "dropWhile is_space (rev core) = rev core" by simp
    show ?thesis by (simp add: strip_def 1 2 3 4)
  qed
qed

section \<open>Evaluating the examples\<close>

lemmas label_defs = col_nalja_def col_ilja_def col_siga_def col_goga_def col_jeoga_def
  col_jongga_def col_georaeryang_def col_georaedaegeum_def col_deungnakryul_def
  col_gongmaedo_def col_bijung_def col_gongmaedo_bijung_def col_gongmaedo_jango_def
  col_gongmaedo_jango_bijung_def

lemma pad_2: "pad 2 n = [48 + n div 10 mod 10, 48 + n mod 10]"
proof -
  have "pad (Suc (Suc 0)) n = [48 + n div 10 mod 10, 48 + n mod 10]" by simp
  then show ?thesis by (simp add: numeral_2_eq_2)
qed

lemma pad_4:
  "pad 4 n = [48 + n div 1000 mod 10, 48 + n div 100 mod 10, 48 + n div 10 mod 10, 48 + n mod 10]"
proof -
  have "pad (Suc (Suc (Suc (Suc 0)))) n =
    [48 + n div 1000 mod 10, 48 + n div 100 mod 10, 48 + n div 10 mod 10, 48 + n mod 10]"
    by (simp add: div_mult2_eq [symmetric])
  moreover have "(4::nat) = Suc (Suc (Suc (Suc 0)))" by simp
  ultimately show ?thesis by metis
qed

lemma sample_to_datetime_stamps: "to_datetime sample_lib (map StampV ds) = Inr (map Some ds)"
  by (induction ds) (auto simp: sample_lib_def sample_stamp_def)

lemma to_num_sample_int:
  "\<bar>i\<bar> < 2 ^ 1024 - 2 ^ 970 \<Longrightarrow> to_num sample_lib (IntV i) = Inr (Finite (of_int i))"
  by (simp add: to_num_def isna_def sample_lib_def sample_float_def)

lemma to_num_sample_float: "to_num sample_lib (FloatV f) = Inr f"
  by (simp add: to_num_def isna_def sample_lib_def)

lemma to_num_sample_1234: "to_num sample_lib (StrV (asc ''1,234'')) = Inr (Finite 1234)"
  by (simp add: to_num_def isna_def py_str_def strip_commas_1234 sample_float_1234)

lemma strftime_dash_examples:
  "strftime_dash 738889 = asc ''2024-01-04''"
  "strftime_dash 738890 = asc ''2024-01-05''"
  "strftime_dash 738891 = asc ''2024-01-06''"
  by (simp_all add: strftime_dash_def civil_of_ordinal_def Let_def pad_2 pad_4 asc_def
        cong: eval_congs)

lemma sample_range: "yyyymmdd_range sample_lib 739000 (lookback_days default_config) = Inr (sample_start, sample_end)"
  by (simp add: yyyymmdd_range_def default_config_def sample_start_def sample_end_def)

lemma three_days_normalized:
  "normalize_ohlcv sample_lib (price_frame [738889, 738890, 738891]) = Inr three_days_prices"
  by (simp add: normalize_ohlcv_def prepare_ohlcv_def reset_named_index_def price_frame_def price_frame_of_def
     series_def column_def cell_at_def set_column_def label_defs Let_def
     numeric_labels_def price_labels_def price_row_def three_days_prices_def
     sample_to_datetime_stamps [of "[738889, 738890, 738891]", simplified]
     to_num_sample_int to_num_sample_float to_num_sample_1234 [unfolded asc_def, simplified]
     strftime_dash_examples [unfolded asc_def, simplified]
     sort_values_def dated_def asc_def
     cong: eval_congs)

lemma three_days_price_table:
  "price_table sample_lib three_days_provider default_config s e = Inr three_days_prices"
  by (simp add: price_table_def three_days_provider_def fixed_provider_def three_days_normalized)

lemma three_days_volume_table:
  "volume_table sample_lib three_days_provider default_config s e
     = Inr \<lparr>ncols = [col_gongmaedo, col_gongmaedo_bijung], nrows = []\<rparr>"
  by (simp add: volume_table_def three_days_provider_def fixed_provider_def short_table_def)

lemma three_days_balance_table:
  "balance_table sample_lib three_days_provider default_config s e
     = Inr \<lparr>ncols = [col_gongmaedo_jango, col_gongmaedo_jango_bijung], nrows = []\<rparr>"
  by (simp add: balance_table_def three_days_provider_def fixed_provider_def short_table_def
      no_rows_frame_def frame_empty_def)

lemma three_days_assembled:
  "assemble three_days_prices \<lparr>ncols = [col_gongmaedo, col_gongmaedo_bijung], nrows = []\<rparr>
     \<lparr>ncols = [col_gongmaedo_jango, col_gongmaedo_jango_bijung], nrows = []\<rparr> = three_days_output"
  by (simp add: assemble_def merge_left_def joined_rows.simps fillna_cols_def fillna_col_def
      fill0_def isna_def sort_values_def dated_def short_labels_def label_defs price_labels_def
      three_days_prices_def three_days_output_def price_row_def asc_def Let_def
      cong: eval_congs)

lemma one_day_normalized:
  "normalize_ohlcv sample_lib (price_frame [738890]) = Inr one_day_prices"
  by (simp add: normalize_ohlcv_def prepare_ohlcv_def reset_named_index_def price_frame_def price_frame_of_def
     series_def column_def cell_at_def set_column_def label_defs Let_def
     numeric_labels_def price_labels_def price_row_def one_day_prices_def
     sample_to_datetime_stamps [of "[738890]", simplified]
     to_num_sample_int to_num_sample_float to_num_sample_1234 [unfolded asc_def, simplified]
     strftime_dash_examples [unfolded asc_def, simplified]
     sort_values_def dated_def asc_def
     cong: eval_congs)

lemma strip_label:
  "strip col_nalja = col_nalja" "strip col_gongmaedo = col_gongmaedo"
  "strip col_gongmaedo_jango = col_gongmaedo_jango" "strip col_bijung = col_bijung"
  by (simp_all add: strip_def is_space_def label_defs)

lemma repeated_date_short:
  "normalize_short sample_lib col_gongmaedo col_gongmaedo col_gongmaedo_bijung
     (short_frame col_gongmaedo [StampV 738890, StampV 738890]) = Inr repeated_date_volumes"
  by (simp add: normalize_short_def select_short_def reset_named_index_def short_frame_def
     strip_def is_space_def column_def cell_at_def Let_def repeated_date_volumes_def
     sample_to_datetime_stamps [of "[738890, 738890]", simplified]
     to_num_sample_int to_num_sample_float
     strftime_dash_examples [unfolded asc_def, simplified] asc_def label_defs
     cong: eval_congs)

lemma repeated_date_assembled:
  "assemble one_day_prices repeated_date_volumes
     \<lparr>ncols = [col_gongmaedo_jango, col_gongmaedo_jango_bijung], nrows = []\<rparr> = repeated_date_output"
  by (simp add: assemble_def merge_left_def joined_rows.simps fillna_cols_def fillna_col_def
      fill0_def isna_def sort_values_def dated_def short_labels_def label_defs price_labels_def
      one_day_prices_def repeated_date_volumes_def repeated_date_output_def price_row_def asc_def Let_def
      cong: eval_congs)

lemma short_frame_not_empty: "\<not> frame_empty (short_frame q (d # ds))"
  by (simp add: frame_empty_def short_frame_def)

lemma repeated_date_build:
  "build sample_lib repeated_date_provider default_config 739000 = Inr repeated_date_output"
  by (simp add: build_def sample_range price_table_def volume_table_def balance_table_def
      repeated_date_provider_def fixed_provider_def short_table_def one_day_normalized
      repeated_date_short short_frame_not_empty repeated_date_assembled)

lemma sample_to_datetime_dash:
  "to_datetime sample_lib [StampV 738890, StrV (asc ''-'')] = Inl ValueError"
  by (simp add: sample_lib_def sample_stamp_def asc_def)

lemma sample_to_datetime_undated:
  "to_datetime sample_lib [StampV 738890, NoneV] = Inr [Some 738890, None]"
  by (simp add: sample_lib_def sample_stamp_def)

lemma select_short_frame:
  "select_short col_gongmaedo (short_frame col_gongmaedo [d1, d2])
     = Inr ([d1, d2], [IntV 7, IntV 7], [FloatV (Finite 2), FloatV (Finite 2)])"
  by (simp add: select_short_def reset_named_index_def short_frame_def
     strip_def is_space_def column_def cell_at_def Let_def label_defs
     cong: eval_congs)

lemma undated_volume_normalized:
  "normalize_short sample_lib col_gongmaedo col_gongmaedo col_gongmaedo_bijung undated_volume_frame
     = Inr one_day_volumes"
  by (simp add: normalize_short_def undated_volume_frame_def select_short_frame
      sample_to_datetime_undated to_num_sample_int to_num_sample_float strftime_dash_examples
      one_day_volumes_def)

lemma dash_volume_raises:
  "normalize_short sample_lib col_gongmaedo col_gongmaedo col_gongmaedo_bijung dash_volume_frame
     = Inl ValueError"
  by (simp add: normalize_short_def dash_volume_frame_def select_short_frame
      sample_to_datetime_dash)

lemma prepare_price_frame_of:
  "prepare_ohlcv (price_frame_of [d1, d2]) =
     Inr (\<lparr>index_name = None, index = [IntV 0, IntV 1],
           columns = col_ilja # columns (price_frame_of [d1, d2]),
           rows = [d1 # hd (rows (price_frame_of [d1, d2])), d2 # hd (rows (price_frame_of [d1, d2]))]\<rparr>,
          [d1, d2])"
  by (simp add: prepare_ohlcv_def reset_named_index_def price_frame_of_def
     series_def column_def cell_at_def label_defs Let_def upt_rec [of 0] upt_rec [of 1]
     cong: eval_congs)

lemma undated_price_normalized:
  "normalize_ohlcv sample_lib undated_price_frame = Inr undated_prices"
  by (simp add: normalize_ohlcv_def prepare_ohlcv_def reset_named_index_def
     undated_price_frame_def price_frame_of_def
     series_def column_def cell_at_def set_column_def label_defs Let_def
     numeric_labels_def price_labels_def price_row_def undated_prices_def
     sample_to_datetime_undated
     to_num_sample_int to_num_sample_float to_num_sample_1234 [unfolded asc_def, simplified]
     strftime_dash_examples [unfolded asc_def, simplified]
     sort_values_def dated_def asc_def
     cong: eval_congs)

lemma dash_build:
  "build sample_lib dash_provider default_config 739000 = Inl ValueError"
  by (simp add: build_def sample_range price_table_def volume_table_def
      dash_provider_def fixed_provider_def short_table_def one_day_normalized
      dash_volume_raises dash_volume_frame_def [symmetric])
     (simp add: dash_volume_frame_def short_frame_not_empty)






lemma sample_path_not_data: "sample_path \<noteq> asc ''data''"
  by (simp add: sample_path_def asc_def)




lemma makedirs_old_file_world:
  "makedirs sample_lib (output_dir default_config) old_file_world = (Inr (), old_file_world)"
  using sample_path_not_data
  by (simp add: makedirs_def sample_lib_def sample_makedirs_def default_config_def
      old_file_world_def empty_world_def asc_def)

lemma makedirs_data_file_world:
  "makedirs sample_lib (output_dir default_config) data_file_world
     = (Inl FileExistsError, data_file_world)"
  by (simp add: makedirs_def sample_lib_def sample_makedirs_def default_config_def
      data_file_world_def empty_world_def asc_def)








section \<open>The numeric normalizer on any cell\<close>

lemma sample_stamp_str: "str_of_stamp sample_lib 738890 = asc ''2024-01-05 00:00:00''"
  by (simp add: sample_lib_def strftime_dash_examples asc_def)

lemma sample_float_stamp: "float_of_str sample_lib (asc ''2024-01-05 00:00:00'') = None"
  by (simp add: sample_lib_def py_int_def int_char_def asc_def is_ascii_space_def is_digit_def
      sample_decimal_def)

lemma sample_float_huge: "float_of_int sample_lib (2 ^ 1024) = None"
  by (simp add: sample_lib_def sample_float_def)

text \<open>
  Claim C3. On a number \<open>_to_num\<close> returns \<open>float(x)\<close>: an integer (a \<open>bool\<close> is the
  integer 0 or 1) goes through \<open>float\<close>, a float is returned as it is. A missing
  value gives NaN. Of any other cell, a string or a Timestamp, the text is taken, its
  commas are removed, then the white space at both ends, and what is left is parsed
  by \<open>float\<close>: whenever the text without its commas is a core between two runs of
  white space, the core neither beginning nor ending with white space, the result is
  \<open>float(core)\<close>, and NaN when \<open>float\<close> rejects the core. So \<open>"1,234"\<close>, also between
  tabs, spaces and a newline, gives whatever \<open>float("1234")\<close> is, the float 1234.0, and
  \<open>"-"\<close>, which \<open>float\<close> rejects, gives NaN, which is not zero. The function raises
  only when \<open>float(x)\<close> on an integer does (OverflowError), never on a string.
\<close>

theorem to_num_cases:
  "to_num lib (IntV i) =
     (case float_of_int lib i of None \<Rightarrow> Inl OverflowError | Some v \<Rightarrow> Inr v)
   \<and> to_num lib (FloatV f) = Inr f
   \<and> to_num lib NoneV = Inr NaN
   \<and> ((x = StrV s \<or> x = StampV d \<and> str_of_stamp lib d = s)
        \<and> filter (\<lambda>c. c \<noteq> 44) s = ws1 @ core @ ws2
        \<and> list_all is_space ws1 \<and> list_all is_space ws2
        \<and> (core = [] \<or> \<not> is_space (hd core) \<and> \<not> is_space (last core)) \<longrightarrow>
      to_num lib x = Inr (case float_of_str lib core of Some v \<Rightarrow> v | None \<Rightarrow> NaN))
   \<and> (float_of_str lib (asc ''1234'') = Some (Finite 1234) \<longrightarrow>
        to_num lib (StrV (asc ''1,234'')) = Inr (Finite 1234)
        \<and> to_num lib (StrV (9 # 32 # asc ''1,234'' @ [32, 10])) = Inr (Finite 1234))
   \<and> (float_of_str lib (asc ''-'') = None \<longrightarrow>
        to_num lib (StrV (asc ''-'')) = Inr NaN \<and> to_num lib (StrV (asc '' - '')) = Inr NaN
        \<and> NaN \<noteq> Finite 0)
   \<and> (to_num lib y = Inl err \<longrightarrow>
        (\<exists>j. y = IntV j \<and> float_of_int lib j = None) \<and> err = OverflowError)"
proof (intro conjI impI)
  show "to_num lib (IntV i) =
     (case float_of_int lib i of None \<Rightarrow> Inl OverflowError | Some v \<Rightarrow> Inr v)"
    by (simp add: to_num_def isna_def)
  show "to_num lib (FloatV f) = Inr f" by (simp add: to_num_def isna_def)
  show "to_num lib NoneV = Inr NaN" by (simp add: to_num_def isna_def)
  show "NaN \<noteq> Finite 0" by simp
next
  assume a: "(x = StrV s \<or> x = StampV d \<and> str_of_stamp lib d = s)
        \<and> filter (\<lambda>c. c \<noteq> 44) s = ws1 @ core @ ws2
        \<and> list_all is_space ws1 \<and> list_all is_space ws2
        \<and> (core = [] \<or> \<not> is_space (hd core) \<and> \<not> is_space (last core))"
  then have "strip (remove_commas s) = core" by (simp add: strip_surrounded remove_commas_def)
  moreover from a have "x = StrV s \<or> x = StampV d \<and> str_of_stamp lib d = s" by simp
  ultimately show "to_num lib x = Inr (case float_of_str lib core of Some v \<Rightarrow> v | None \<Rightarrow> NaN)"
    by (elim disjE conjE) (simp_all add: to_num_def py_str_def isna_def split: option.splits)
next
  assume f: "float_of_str lib (asc ''1234'') = Some (Finite 1234)"
  have "strip (remove_commas (asc ''1,234'')) = asc ''1234''"
    by (simp add: strip_def remove_commas_def asc_def is_space_def)
  with f show "to_num lib (StrV (asc ''1,234'')) = Inr (Finite 1234)"
    by (simp add: to_num_def isna_def py_str_def)
  have "strip (remove_commas (9 # 32 # asc ''1,234'' @ [32, 10])) = asc ''1234''"
    by (simp add: strip_def remove_commas_def asc_def is_space_def)
  with f show "to_num lib (StrV (9 # 32 # asc ''1,234'' @ [32, 10])) = Inr (Finite 1234)"
    by (simp add: to_num_def isna_def py_str_def)
next
  assume f: "float_of_str lib (asc ''-'') = None"
  have "strip (remove_commas (asc ''-'')) = asc ''-''"
    by (simp add: strip_def remove_commas_def asc_def is_space_def)
  with f show "to_num lib (StrV (asc ''-'')) = Inr NaN"
    by (simp add: to_num_def isna_def py_str_def)
  have "strip (remove_commas (asc '' - '')) = asc ''-''"
    by (simp add: strip_def remove_commas_def asc_def is_space_def)
  with f show "to_num lib (StrV (asc '' - '')) = Inr NaN"
    by (simp add: to_num_def isna_def py_str_def)
next
  assume "to_num lib y = Inl err"
  then show "\<exists>j. y = IntV j \<and> float_of_int lib j = None"
    by (cases y) (auto simp: to_num_def isna_def split: if_splits option.splits)
next
  assume "to_num lib y = Inl err"
  then show "err = OverflowError"
    by (cases y) (auto simp: to_num_def isna_def split: if_splits option.splits)
qed

theorem to_num_cases_witness:
  "float_of_str sample_lib (asc ''1234'') = Some (Finite 1234)
   \<and> to_num sample_lib (StrV (asc ''1,234'')) = Inr (Finite 1234)
   \<and> to_num sample_lib (StrV (9 # 32 # asc ''1,234'' @ [32, 10])) = Inr (Finite 1234)
   \<and> to_num sample_lib (StrV (asc '' 12,34  '')) = Inr (Finite 1234)
   \<and> float_of_str sample_lib (asc ''-'') = None
   \<and> to_num sample_lib (StrV (asc ''-'')) = Inr NaN
   \<and> to_num sample_lib (StrV (asc '' - '')) = Inr NaN
   \<and> str_of_stamp sample_lib 738890 = asc ''2024-01-05 00:00:00''
   \<and> to_num sample_lib (StampV 738890) = Inr NaN
   \<and> float_of_int sample_lib (2 ^ 1024) = None
   \<and> to_num sample_lib (IntV (2 ^ 1024)) = Inl OverflowError"
proof -
  note t = to_num_cases [where lib = sample_lib and i = "2 ^ 1024"]
  have 1: "to_num sample_lib (StrV (asc ''1,234'')) = Inr (Finite 1234)
       \<and> to_num sample_lib (StrV (9 # 32 # asc ''1,234'' @ [32, 10])) = Inr (Finite 1234)"
    using t sample_float_1234 by blast
  have 2: "to_num sample_lib (StrV (asc ''-'')) = Inr NaN
       \<and> to_num sample_lib (StrV (asc '' - '')) = Inr NaN"
    using t sample_float_dash by blast
  have "filter (\<lambda>c. c \<noteq> 44) (asc '' 12,34  '') = asc '' '' @ asc ''1234'' @ asc ''  ''
      \<and> list_all is_space (asc '' '') \<and> list_all is_space (asc ''  '')
      \<and> \<not> is_space (hd (asc ''1234'')) \<and> \<not> is_space (last (asc ''1234''))"
    by (simp add: asc_def is_space_def)
  then have 3: "to_num sample_lib (StrV (asc '' 12,34  '')) = Inr (Finite 1234)"
    using to_num_cases [where lib = sample_lib and x = "StrV (asc '' 12,34  '')"
        and s = "asc '' 12,34  ''" and ?ws1.0 = "asc '' ''" and core = "asc ''1234''"
        and ?ws2.0 = "asc ''  ''"] sample_float_1234
    by simp
  have "filter (\<lambda>c. c \<noteq> 44) (asc ''2024-01-05 00:00:00'') = [] @ asc ''2024-01-05 00:00:00'' @ []
      \<and> \<not> is_space (hd (asc ''2024-01-05 00:00:00''))
      \<and> \<not> is_space (last (asc ''2024-01-05 00:00:00''))"
    by (simp add: asc_def is_space_def)
  then have 4: "to_num sample_lib (StampV 738890) = Inr NaN"
    using to_num_cases [where lib = sample_lib and x = "StampV 738890" and d = 738890
        and s = "asc ''2024-01-05 00:00:00''" and ?ws1.0 = "[]"
        and core = "asc ''2024-01-05 00:00:00''" and ?ws2.0 = "[]"]
      sample_stamp_str sample_float_stamp
    by simp
  have 5: "to_num sample_lib (IntV (2 ^ 1024)) = Inl OverflowError"
    using t sample_float_huge by simp
  show ?thesis
    using 1 2 3 4 5 sample_float_1234 sample_float_dash sample_stamp_str sample_float_huge
    by blast
qed

section \<open>Missing short-selling data\<close>

text \<open>
  Claim C2. Whenever the pipeline reaches the merge, it produces the assembled table,
  and in every row of that table: when the date of the row is the date of no row of
  the normalised short-volume table, the short-volume column and its ratio column hold
  the number 0; when it is the date of no row of the normalised short-balance table,
  the short-balance column and its ratio column hold the number 0 (so with no match in
  either table all four are 0); and none of the four columns holds a missing-value
  marker. A short-selling result that is absent, or a DataFrame that is empty, is
  replaced by the table with the two column labels and no rows, and the run goes on.
\<close>

theorem unmatched_short_columns_are_zero:
  assumes "yyyymmdd_range lib today (lookback_days cfg) = Inr (s, e)"
    and "price_table lib prov cfg s e = Inr ohlcv"
    and "volume_table lib prov cfg s e = Inr sv"
    and "balance_table lib prov cfg s e = Inr sb"
  shows "build lib prov cfg today = Inr (assemble ohlcv sv sb)
    \<and> (\<forall>(k, us) \<in> set (nrows (assemble ohlcv sv sb)).
          (k \<notin> fst ` set (nrows sv) \<longrightarrow>
             cell_at (ncols (assemble ohlcv sv sb)) us col_gongmaedo = IntV 0 \<and>
             cell_at (ncols (assemble ohlcv sv sb)) us col_gongmaedo_bijung = IntV 0)
        \<and> (k \<notin> fst ` set (nrows sb) \<longrightarrow>
             cell_at (ncols (assemble ohlcv sv sb)) us col_gongmaedo_jango = IntV 0 \<and>
             cell_at (ncols (assemble ohlcv sv sb)) us col_gongmaedo_jango_bijung = IntV 0)
        \<and> (\<forall>c \<in> set short_labels. \<not> isna (cell_at (ncols (assemble ohlcv sv sb)) us c)))
    \<and> (get_shorting_volume_by_date prov s e (ticker cfg) = Inr None
          \<or> (\<exists>f. get_shorting_volume_by_date prov s e (ticker cfg) = Inr (Some f) \<and> frame_empty f)
        \<longrightarrow> sv = \<lparr>ncols = [col_gongmaedo, col_gongmaedo_bijung], nrows = []\<rparr>)
    \<and> (get_shorting_balance_by_date prov s e (ticker cfg) = Inr None
          \<or> (\<exists>f. get_shorting_balance_by_date prov s e (ticker cfg) = Inr (Some f) \<and> frame_empty f)
        \<longrightarrow> sb = \<lparr>ncols = [col_gongmaedo_jango, col_gongmaedo_jango_bijung], nrows = []\<rparr>)"
proof (intro conjI)
  show "build lib prov cfg today = Inr (assemble ohlcv sv sb)"
    using assms by (rule build_stages)
next
  from assms(2) obtain f where f: "normalize_ohlcv lib f = Inr ohlcv"
    by (rule price_table_Inr)
  from assms(3) obtain rv where
    rv: "short_table lib col_gongmaedo col_gongmaedo col_gongmaedo_bijung rv = Inr sv"
    by (rule volume_table_Inr)
  from assms(4) obtain rb where
    rb: "short_table lib col_gongmaedo_jango col_gongmaedo_jango col_gongmaedo_jango_bijung rb = Inr sb"
    by (rule balance_table_Inr)
  note al = normalize_ohlcv_shape(1,2) [OF f]
  note hv = short_table_shape [OF rv]
  note hb = short_table_shape [OF rb]
  have cols: "ncols (assemble ohlcv sv sb) = ncols ohlcv @ short_labels"
    using hv hb by (simp add: ncols_assemble short_labels_def)
  show "\<forall>(k, us) \<in> set (nrows (assemble ohlcv sv sb)).
          (k \<notin> fst ` set (nrows sv) \<longrightarrow>
             cell_at (ncols (assemble ohlcv sv sb)) us col_gongmaedo = IntV 0 \<and>
             cell_at (ncols (assemble ohlcv sv sb)) us col_gongmaedo_bijung = IntV 0)
        \<and> (k \<notin> fst ` set (nrows sb) \<longrightarrow>
             cell_at (ncols (assemble ohlcv sv sb)) us col_gongmaedo_jango = IntV 0 \<and>
             cell_at (ncols (assemble ohlcv sv sb)) us col_gongmaedo_jango_bijung = IntV 0)
        \<and> (\<forall>c \<in> set short_labels. \<not> isna (cell_at (ncols (assemble ohlcv sv sb)) us c))"
  proof (intro ballI, clarify)
    fix k us assume row: "(k, us) \<in> set (nrows (assemble ohlcv sv sb))"
    from al hv hb row obtain vs a b where
      lvs: "length vs = length (ncols ohlcv)"
      and a: "(k \<notin> fst ` set (nrows sv) \<and> a = [FloatV NaN, FloatV NaN]) \<or> (k, a) \<in> set (nrows sv)"
      and b: "(k \<notin> fst ` set (nrows sb) \<and> b = [FloatV NaN, FloatV NaN]) \<or> (k, b) \<in> set (nrows sb)"
      and la: "length a = 2" and lb: "length b = 2"
      and us: "us = vs @ map fill0 (a @ b)"
      by (elim assemble_rows [where k = k and us = us and ohlcv = ohlcv and sv = sv and sb = sb]) auto
    from la obtain a1 a2 where a12: "a = [a1, a2]"
      by (cases a; cases "tl a") auto
    from lb obtain b1 b2 where b12: "b = [b1, b2]"
      by (cases b; cases "tl b") auto
    have us': "us = vs @ [fill0 a1, fill0 a2, fill0 b1, fill0 b2]"
      by (simp add: us a12 b12)
    note c = cell_at_assembled [OF lvs al(2)]
    have va: "k \<notin> fst ` set (nrows sv) \<Longrightarrow> a1 = FloatV NaN \<and> a2 = FloatV NaN"
      using a a12 by force
    have vb: "k \<notin> fst ` set (nrows sb) \<Longrightarrow> b1 = FloatV NaN \<and> b2 = FloatV NaN"
      using b b12 by force
    show "(k \<notin> fst ` set (nrows sv) \<longrightarrow>
             cell_at (ncols (assemble ohlcv sv sb)) us col_gongmaedo = IntV 0 \<and>
             cell_at (ncols (assemble ohlcv sv sb)) us col_gongmaedo_bijung = IntV 0)
        \<and> (k \<notin> fst ` set (nrows sb) \<longrightarrow>
             cell_at (ncols (assemble ohlcv sv sb)) us col_gongmaedo_jango = IntV 0 \<and>
             cell_at (ncols (assemble ohlcv sv sb)) us col_gongmaedo_jango_bijung = IntV 0)
        \<and> (\<forall>c \<in> set short_labels. \<not> isna (cell_at (ncols (assemble ohlcv sv sb)) us c))"
      unfolding cols us' using va vb
      by (simp add: c ball_short_labels)
  qed
next
  from assms(3) show "get_shorting_volume_by_date prov s e (ticker cfg) = Inr None
          \<or> (\<exists>f. get_shorting_volume_by_date prov s e (ticker cfg) = Inr (Some f) \<and> frame_empty f)
        \<longrightarrow> sv = \<lparr>ncols = [col_gongmaedo, col_gongmaedo_bijung], nrows = []\<rparr>"
    by (auto simp: volume_table_def short_table_def)
next
  from assms(4) show "get_shorting_balance_by_date prov s e (ticker cfg) = Inr None
          \<or> (\<exists>f. get_shorting_balance_by_date prov s e (ticker cfg) = Inr (Some f) \<and> frame_empty f)
        \<longrightarrow> sb = \<lparr>ncols = [col_gongmaedo_jango, col_gongmaedo_jango_bijung], nrows = []\<rparr>"
    by (auto simp: balance_table_def short_table_def)
qed

theorem unmatched_short_columns_are_zero_witness:
  "yyyymmdd_range sample_lib 739000 (lookback_days default_config) = Inr (sample_start, sample_end)
   \<and> price_table sample_lib three_days_provider default_config sample_start sample_end
       = Inr three_days_prices
   \<and> volume_table sample_lib three_days_provider default_config sample_start sample_end
       = Inr \<lparr>ncols = [col_gongmaedo, col_gongmaedo_bijung], nrows = []\<rparr>
   \<and> balance_table sample_lib three_days_provider default_config sample_start sample_end
       = Inr \<lparr>ncols = [col_gongmaedo_jango, col_gongmaedo_jango_bijung], nrows = []\<rparr>
   \<and> build sample_lib three_days_provider default_config 739000 = Inr three_days_output"
  using unmatched_short_columns_are_zero
    [OF sample_range three_days_price_table three_days_volume_table three_days_balance_table]
    sample_range three_days_price_table three_days_volume_table three_days_balance_table
  by (simp add: three_days_assembled)

section \<open>The left join on the dates of the price table\<close>

text \<open>
  What holds of every run that reaches the merge: the dates of the output are exactly
  the dates of the normalised price table, so a date that only a short-selling table
  has never appears; and when no date occurs twice in either normalised short-selling
  table, the output has one row per date of the price table, no date twice, the dated
  rows in strictly descending order and a row without date last.
\<close>

lemma build_dates:
  assumes "build lib prov cfg today = Inr out"
  obtains s e ohlcv where
    "yyyymmdd_range lib today (lookback_days cfg) = Inr (s, e)"
    "price_table lib prov cfg s e = Inr ohlcv"
    "fst ` set (nrows out) = fst ` set (nrows ohlcv)"
proof -
  from assms obtain s e ohlcv sv sb where
    "yyyymmdd_range lib today (lookback_days cfg) = Inr (s, e)"
    "price_table lib prov cfg s e = Inr ohlcv"
    "out = assemble ohlcv sv sb"
    by (rule build_Inr)
  then show thesis using that by (simp add: assemble_dates)
qed

lemma build_unique_dates:
  assumes "yyyymmdd_range lib today (lookback_days cfg) = Inr (s, e)"
    and "price_table lib prov cfg s e = Inr ohlcv"
    and "volume_table lib prov cfg s e = Inr sv"
    and "balance_table lib prov cfg s e = Inr sb"
    and "distinct (map fst (nrows sv))" "distinct (map fst (nrows sb))"
  shows "\<exists>out. build lib prov cfg today = Inr out
     \<and> length (nrows out) = card (fst ` set (nrows ohlcv))
     \<and> distinct (map fst (nrows out))
     \<and> (\<exists>ks n. map fst (nrows out) = map Some ks @ replicate n None
           \<and> sorted_wrt (\<lambda>x y. x > y) ks)"
proof -
  from assms(2) obtain f where "normalize_ohlcv lib f = Inr ohlcv"
    by (rule price_table_Inr)
  then have d: "distinct (map fst (nrows ohlcv))"
    by (rule normalize_ohlcv_shape(3))
  show ?thesis
    using build_stages [OF assms(1-4)] assemble_unique_dates [OF d assms(5,6)]
    by simp
qed

text \<open>
  Claim C1. The row count fails on the code. The provider returns one price row,
  dated 2024-01-05, and a short-volume table with two rows of that date. The
  normalised price table has one date; the output has two rows. The price table is
  deduplicated by date before the merge, the short-selling tables are not, and the
  left join repeats the price row once for each short-selling row of its date.
\<close>

theorem repeated_short_date_adds_a_row:
  "price_table sample_lib repeated_date_provider default_config sample_start sample_end
     = Inr one_day_prices
   \<and> card (fst ` set (nrows one_day_prices)) = 1
   \<and> build sample_lib repeated_date_provider default_config 739000 = Inr repeated_date_output
   \<and> length (nrows repeated_date_output) = 2"
  by (simp add: price_table_def repeated_date_provider_def [unfolded fixed_provider_def]
      one_day_normalized repeated_date_build [unfolded repeated_date_provider_def fixed_provider_def])
     (simp add: one_day_prices_def repeated_date_output_def)

text \<open>
  Claim C4. The absence of duplicate dates fails on the code, at the same input and
  for the same reason: the output holds the date 2024-01-05 twice, so its rows are
  not in strictly descending order of date.
\<close>

theorem repeated_short_date_repeats_the_date:
  "build sample_lib repeated_date_provider default_config 739000 = Inr repeated_date_output
   \<and> map fst (nrows repeated_date_output)
       = [Some (asc ''2024-01-05''), Some (asc ''2024-01-05'')]
   \<and> \<not> distinct (map fst (nrows repeated_date_output))
   \<and> \<not> sorted_wrt (\<lambda>x y. x > y) (map fst (dated (nrows repeated_date_output)))"
  by (simp add: repeated_date_build) (simp add: repeated_date_output_def dated_def)

section \<open>Dates that are missing and dates that do not parse\<close>

text \<open>
  Claim C5, as stated, fails on the code: a row whose date does not parse is not
  dropped. \<open>pd.to_datetime\<close> is called without \<open>errors="coerce"\<close>, so on a date it
  cannot parse it raises, the exception leaves \<open>main\<close> and the run aborts. Here the
  short-volume table has the text \<open>-\<close> as the date of its second row: the selection
  of the columns succeeds, \<open>to_datetime\<close> raises ValueError on the date column, and so
  does the pipeline.
\<close>

theorem unparseable_short_date_aborts:
  "select_short col_gongmaedo dash_volume_frame
       = Inr ([StampV 738890, StrV (asc ''-'')], [IntV 7, IntV 7],
              [FloatV (Finite 2), FloatV (Finite 2)])
   \<and> to_datetime sample_lib [StampV 738890, StrV (asc ''-'')] = Inl ValueError
   \<and> build sample_lib dash_provider default_config 739000 = Inl ValueError"
  by (simp add: dash_volume_frame_def select_short_frame sample_to_datetime_dash dash_build)

text \<open>
  Claim C5, amended. In a short-selling table every row whose date is missing once
  parsed (\<open>NaT\<close>, from a null date value) is dropped: no row of the normalised table
  is without date, and its dates are, in order, the \<open>YYYY-MM-DD\<close> renderings of the
  parsed dates that are not missing. When \<open>to_datetime\<close> raises on the date column,
  the normalisation raises the same exception: nothing is dropped, the run aborts. The
  dropping applies to the short-selling tables only: the dates of the normalised price
  table are the renderings of all the parsed dates, the missing one (NaN) included;
  and the price table aborts on a date that does not parse in the same way.
\<close>

theorem missing_short_dates_dropped:
  "(normalize_short lib qty qo ro f = Inr t \<longrightarrow>
      (\<forall>r \<in> set (nrows t). fst r \<noteq> None) \<and>
      (\<exists>ds qs ps stamps.
         select_short qty f = Inr (ds, qs, ps) \<and> to_datetime lib ds = Inr stamps \<and>
         (length stamps = length ds \<longrightarrow>
            map fst (nrows t)
              = filter (\<lambda>k. k \<noteq> None) (map (map_option strftime_dash) stamps))))
   \<and> (select_short qty f' = Inr (ds', qs', ps') \<and> to_datetime lib ds' = Inl err \<longrightarrow>
        normalize_short lib qty qo ro f' = Inl err)
   \<and> (normalize_ohlcv lib g = Inr p \<longrightarrow>
        (\<exists>f2 dcol stamps.
           prepare_ohlcv g = Inr (f2, dcol) \<and> to_datetime lib dcol = Inr stamps \<and>
           (length stamps = length dcol \<longrightarrow>
              fst ` set (nrows p) = map_option strftime_dash ` set stamps)))
   \<and> (prepare_ohlcv g' = Inr (f2', dcol') \<and> to_datetime lib dcol' = Inl err' \<longrightarrow>
        normalize_ohlcv lib g' = Inl err')"
proof (intro conjI impI)
  assume a: "normalize_short lib qty qo ro f = Inr t"
  from a show "\<forall>r \<in> set (nrows t). fst r \<noteq> None"
    by (elim normalize_short_Inr) auto
  from a show "\<exists>ds qs ps stamps.
         select_short qty f = Inr (ds, qs, ps) \<and> to_datetime lib ds = Inr stamps \<and>
         (length stamps = length ds \<longrightarrow>
            map fst (nrows t)
              = filter (\<lambda>k. k \<noteq> None) (map (map_option strftime_dash) stamps))"
    by (elim normalize_short_dates) blast
next
  assume "select_short qty f' = Inr (ds', qs', ps') \<and> to_datetime lib ds' = Inl err"
  then show "normalize_short lib qty qo ro f' = Inl err"
    by (simp add: normalize_short_raises)
next
  assume "normalize_ohlcv lib g = Inr p"
  then show "\<exists>f2 dcol stamps.
           prepare_ohlcv g = Inr (f2, dcol) \<and> to_datetime lib dcol = Inr stamps \<and>
           (length stamps = length dcol \<longrightarrow>
              fst ` set (nrows p) = map_option strftime_dash ` set stamps)"
    by (elim normalize_ohlcv_dates) blast
next
  assume "prepare_ohlcv g' = Inr (f2', dcol') \<and> to_datetime lib dcol' = Inl err'"
  then show "normalize_ohlcv lib g' = Inl err'"
    by (simp add: normalize_ohlcv_raises)
qed

theorem missing_short_dates_dropped_witness:
  "normalize_short sample_lib col_gongmaedo col_gongmaedo col_gongmaedo_bijung undated_volume_frame
     = Inr one_day_volumes
   \<and> select_short col_gongmaedo undated_volume_frame
       = Inr ([StampV 738890, NoneV], [IntV 7, IntV 7], [FloatV (Finite 2), FloatV (Finite 2)])
   \<and> to_datetime sample_lib [StampV 738890, NoneV] = Inr [Some 738890, None]
   \<and> map fst (nrows one_day_volumes) = [Some (strftime_dash 738890)]
   \<and> select_short col_gongmaedo dash_volume_frame
       = Inr ([StampV 738890, StrV (asc ''-'')], [IntV 7, IntV 7],
              [FloatV (Finite 2), FloatV (Finite 2)])
   \<and> to_datetime sample_lib [StampV 738890, StrV (asc ''-'')] = Inl ValueError
   \<and> normalize_short sample_lib col_gongmaedo col_gongmaedo col_gongmaedo_bijung dash_volume_frame
       = Inl ValueError
   \<and> normalize_ohlcv sample_lib undated_price_frame = Inr undated_prices
   \<and> fst ` set (nrows undated_prices) = {Some (strftime_dash 738890), None}
   \<and> map_sum id snd (prepare_ohlcv (price_frame_of [StampV 738890, StrV (asc ''-'')]))
       = Inr [StampV 738890, StrV (asc ''-'')]
   \<and> normalize_ohlcv sample_lib (price_frame_of [StampV 738890, StrV (asc ''-'')]) = Inl ValueError"
proof -
  note t = missing_short_dates_dropped
    [of sample_lib col_gongmaedo col_gongmaedo col_gongmaedo_bijung undated_volume_frame
        one_day_volumes dash_volume_frame "[StampV 738890, StrV (asc ''-'')]" "[IntV 7, IntV 7]"
        "[FloatV (Finite 2), FloatV (Finite 2)]" ValueError undated_price_frame undated_prices
        "price_frame_of [StampV 738890, StrV (asc ''-'')]" _ "[StampV 738890, StrV (asc ''-'')]"
        ValueError]
  have s1: "select_short col_gongmaedo undated_volume_frame
       = Inr ([StampV 738890, NoneV], [IntV 7, IntV 7], [FloatV (Finite 2), FloatV (Finite 2)])"
    by (simp add: undated_volume_frame_def select_short_frame)
  have s2: "select_short col_gongmaedo dash_volume_frame
       = Inr ([StampV 738890, StrV (asc ''-'')], [IntV 7, IntV 7],
              [FloatV (Finite 2), FloatV (Finite 2)])"
    by (simp add: dash_volume_frame_def select_short_frame)
  from t s2 sample_to_datetime_dash
  have r1: "normalize_short sample_lib col_gongmaedo col_gongmaedo col_gongmaedo_bijung dash_volume_frame
       = Inl ValueError" by blast
  from t prepare_price_frame_of [of "StampV 738890" "StrV (asc ''-'')"] sample_to_datetime_dash
  have r2: "normalize_ohlcv sample_lib (price_frame_of [StampV 738890, StrV (asc ''-'')]) = Inl ValueError"
    by blast
  from t undated_volume_normalized s1 sample_to_datetime_undated
  have r3: "map fst (nrows one_day_volumes) = [Some (strftime_dash 738890)]"
    by auto
  from t undated_price_normalized
    prepare_price_frame_of [of "StampV 738890" NoneV, folded undated_price_frame_def]
    sample_to_datetime_undated
  have r4: "fst ` set (nrows undated_prices) = {Some (strftime_dash 738890), None}"
    by auto
  show ?thesis
    using r1 r2 r3 r4 s1 s2 undated_volume_normalized undated_price_normalized
      sample_to_datetime_dash sample_to_datetime_undated
      prepare_price_frame_of [of "StampV 738890" "StrV (asc ''-'')"]
    by simp
qed

section \<open>Exit codes\<close>






section \<open>A failed run and the output file\<close>



end
